theory Spec2Isabelle
  imports Complex_Main
begin

section \<open>NdRaster: the dtype registry\<close>

text \<open>
  The development follows \<^verbatim>\<open>src/dist/ndraster.cjs.js\<close>, the fullest build of the
  library. The ten dtype tags are the keys of \<^verbatim>\<open>DTYPE_TO_TYPEDARRAY_CONSTRUCTOR\<close>.
\<close>

datatype dtype =
  Uint8 | Int8 | Uint16 | Int16 | Uint32 | Int32 | Uint64 | Int64 | Float32 | Float64

text \<open>
  A JavaScript Number is modelled as an exact real extended with the two infinities and
  NaN. The rounding of doubles is modelled where it shows on small inputs: the registry
  subtracts \<open>1\<close> from powers of two, and \<^verbatim>\<open>2 ** 64 / 2 - 1\<close> is the double \<open>2 ^ 63\<close>
  (\<open>double_of_int\<close> below). Coordinates, shapes, strides and offsets are integers, and
  their sums and products are written over the integers, which is what the doubles of
  the source hold up to a magnitude of \<open>2 ^ 53\<close>.
\<close>

datatype number = NaN | NegInfinity | Num real | PosInfinity

fun num_lt :: "number \<Rightarrow> number \<Rightarrow> bool" where
  "num_lt NaN _ = False"
| "num_lt _ NaN = False"
| "num_lt NegInfinity NegInfinity = False"
| "num_lt NegInfinity _ = True"
| "num_lt (Num a) (Num b) = (a < b)"
| "num_lt (Num a) PosInfinity = True"
| "num_lt (Num a) NegInfinity = False"
| "num_lt PosInfinity _ = False"

fun num_neg :: "number \<Rightarrow> number" where
  "num_neg NaN = NaN"
| "num_neg NegInfinity = PosInfinity"
| "num_neg (Num a) = Num (- a)"
| "num_neg PosInfinity = NegInfinity"

fun num_half :: "number \<Rightarrow> number" where
  "num_half (Num a) = Num (a / 2)"
| "num_half x = x"

text \<open>
  The double nearest to an integer (ties to the even significand): an integer of at most
  53 bits is a double; a longer one keeps its 53 leading bits, rounded on the bits
  dropped, and becomes an infinity from \<open>2 ^ 1024 - 2 ^ 970\<close> on.
\<close>

function bit_length :: "int \<Rightarrow> nat" where
  "bit_length n = (if n \<le> 0 then 0 else Suc (bit_length (n div 2)))"
  by pat_completeness auto
termination
  by (relation "measure nat") auto

declare bit_length.simps [simp del]

definition double_of_int :: "int \<Rightarrow> number" where
  "double_of_int z =
     (let a = \<bar>z\<bar>; k = bit_length a - 53 in
      if k = 0 then Num (of_int z)
      else
        (let u = 2 ^ k; q = a div u; r = a mod u;
             m = (if 2 * r < u then q
                  else if 2 * r > u then q + 1
                  else if even q then q else q + 1);
             v = m * u
         in if v \<ge> 2 ^ 1024 then (if z < 0 then NegInfinity else PosInfinity)
            else Num (of_int (sgn z * v))))"

text \<open>\<^verbatim>\<open>x - 1\<close>; the registry applies it to integers, where the difference is rounded.\<close>

fun num_pred :: "number \<Rightarrow> number" where
  "num_pred (Num a) =
     (if of_int \<lfloor>a\<rfloor> = a then double_of_int (\<lfloor>a\<rfloor> - 1) else Num (a - 1))"
| "num_pred x = x"

fun BYTES_PER_ELEMENT :: "dtype \<Rightarrow> nat" where
  "BYTES_PER_ELEMENT Uint8 = 1"
| "BYTES_PER_ELEMENT Int8 = 1"
| "BYTES_PER_ELEMENT Uint16 = 2"
| "BYTES_PER_ELEMENT Int16 = 2"
| "BYTES_PER_ELEMENT Uint32 = 4"
| "BYTES_PER_ELEMENT Int32 = 4"
| "BYTES_PER_ELEMENT Uint64 = 8"
| "BYTES_PER_ELEMENT Int64 = 8"
| "BYTES_PER_ELEMENT Float32 = 4"
| "BYTES_PER_ELEMENT Float64 = 8"

fun DTYPE_TO_NB_POSIBLE_VALUES :: "dtype \<Rightarrow> number" where
  "DTYPE_TO_NB_POSIBLE_VALUES Float32 = PosInfinity"
| "DTYPE_TO_NB_POSIBLE_VALUES Float64 = PosInfinity"
| "DTYPE_TO_NB_POSIBLE_VALUES d = Num (2 ^ (BYTES_PER_ELEMENT d * 8))"

record bound =
  min_bound :: number
  max_bound :: number

text \<open>
  \<^verbatim>\<open>DTYPE_TO_BOUND\<close>, entry by entry as the source writes it: only \<^verbatim>\<open>uint8\<close> has the
  minimum \<open>0\<close>; the other unsigned kinds are written with the signed formula. The maximum
  of the two 64-bit kinds is \<open>2 ^ 63\<close>, the double that \<open>2 ^ 63 - 1\<close> rounds to.
\<close>

fun DTYPE_TO_BOUND :: "dtype \<Rightarrow> bound" where
  "DTYPE_TO_BOUND Uint8 =
     \<lparr>min_bound = Num 0, max_bound = num_pred (DTYPE_TO_NB_POSIBLE_VALUES Uint8)\<rparr>"
| "DTYPE_TO_BOUND Float32 = \<lparr>min_bound = NegInfinity, max_bound = PosInfinity\<rparr>"
| "DTYPE_TO_BOUND Float64 = \<lparr>min_bound = NegInfinity, max_bound = PosInfinity\<rparr>"
| "DTYPE_TO_BOUND d =
     \<lparr>min_bound = num_half (num_neg (DTYPE_TO_NB_POSIBLE_VALUES d)),
      max_bound = num_pred (num_half (DTYPE_TO_NB_POSIBLE_VALUES d))\<rparr>"

section \<open>The position iterator\<close>

text \<open>
  \<^verbatim>\<open>getNextPosition\<close>: the loop runs \<open>i\<close> from \<open>position.length - 1\<close> down to \<open>0\<close>; the
  first argument of the loop function is \<open>i + 1\<close>. Coordinates are integers, and the three
  arrays have the same length (\<^verbatim>\<open>slice\<close> checks the arity before it calls).
\<close>

fun getNextPosition_loop ::
  "nat \<Rightarrow> int list \<Rightarrow> int list \<Rightarrow> int list \<Rightarrow> int list \<Rightarrow> int list option" where
  "getNextPosition_loop 0 position mn mx nextPos = None"
| "getNextPosition_loop (Suc i) position mn mx nextPos =
     (if position ! i < mn ! i \<or> position ! i \<ge> mx ! i then None
      else let dimIncreased = position ! i + 1 in
        if dimIncreased \<ge> mx ! i then
          (if i = 0 then None
           else getNextPosition_loop i position mn mx (nextPos[i := mn ! i]))
        else Some (nextPos[i := dimIncreased]))"

definition getNextPosition :: "int list \<Rightarrow> int list \<Rightarrow> int list \<Rightarrow> int list option" where
  "getNextPosition position mn mx =
     getNextPosition_loop (length position) position mn mx position"

section \<open>JavaScript values and typed arrays\<close>

text \<open>
  The values the library handles: Numbers, BigInts (the elements of the two 64-bit typed
  arrays), generic Arrays (nested input data), and \<^verbatim>\<open>undefined\<close> (a read outside an
  array, a missing property).
\<close>

datatype jsval = Undefined | Number number | BigInt int | Array "jsval list"

datatype error =
  NoShapeNoData | InvalidData | ShapeMismatch | ValueNotNumber
  | PositionArity | PositionOutOfBound nat | InvalidDtype
  | BoundariesArity | StrictBoundaries nat
  | EmptyArray | SizeInconsistencies
  | TypeError | RangeError | SyntaxError

text \<open>
  The Number that a relational comparison (\<^verbatim>\<open><\<close>, \<^verbatim>\<open>>\<close>) with a Number operand reads from
  a value: \<^verbatim>\<open>undefined\<close> is NaN, a BigInt is compared by its mathematical value, and an Array
  goes through its string (\<^verbatim>\<open>[]\<close> is \<^verbatim>\<open>""\<close>, hence 0; \<^verbatim>\<open>[x]\<close> is the string of \<^verbatim>\<open>x\<close>, which
  for a BigInt reads back as the nearest double; two or more elements give a string with
  a comma, hence NaN).
\<close>

fun rel_number :: "jsval \<Rightarrow> number" where
  "rel_number Undefined = NaN"
| "rel_number (Number n) = n"
| "rel_number (BigInt b) = Num (of_int b)"
| "rel_number (Array []) = Num 0"
| "rel_number (Array [Undefined]) = Num 0"
| "rel_number (Array [Number n]) = n"
| "rel_number (Array [BigInt b]) = double_of_int b"
| "rel_number (Array [Array ys]) = rel_number (Array ys)"
| "rel_number (Array (x # y # zs)) = NaN"

text \<open>\<^verbatim>\<open>a < b\<close> and \<^verbatim>\<open>a > b\<close>, where at least one operand is a Number or \<^verbatim>\<open>undefined\<close>.\<close>

definition js_lt :: "jsval \<Rightarrow> jsval \<Rightarrow> bool" where
  "js_lt a b = num_lt (rel_number a) (rel_number b)"

definition js_gt :: "jsval \<Rightarrow> jsval \<Rightarrow> bool" where
  "js_gt a b = num_lt (rel_number b) (rel_number a)"

text \<open>\<^verbatim>\<open>ToNumber\<close>, which \<^verbatim>\<open>isNaN\<close> and a store into a Number typed array apply.\<close>

fun ToNumber :: "jsval \<Rightarrow> error + number" where
  "ToNumber (BigInt b) = Inl TypeError"
| "ToNumber v = Inr (rel_number v)"

text \<open>
  The integer that the decimal string of an integer-valued Number below \<open>10 ^ 21\<close> denotes
  (\<^verbatim>\<open>Number::toString\<close>): the fewest leading digits, closest to the Number, that still read
  back as the same double, followed by zeros. The second argument of the loop is the
  number of trailing zeros tried, from the most down to none.
\<close>

function decimal_length :: "int \<Rightarrow> nat" where
  "decimal_length n = (if n \<le> 0 then 0 else Suc (decimal_length (n div 10)))"
  by pat_completeness auto
termination
  by (relation "measure nat") auto

declare decimal_length.simps [simp del]

fun shortest_decimal :: "int \<Rightarrow> nat \<Rightarrow> int" where
  "shortest_decimal x 0 = x"
| "shortest_decimal x (Suc e) =
     (let p = 10 ^ Suc e; lo = (x div p) * p; hi = lo + p;
          okLo = (double_of_int lo = Num (of_int x));
          okHi = (double_of_int hi = Num (of_int x))
      in if okLo \<and> okHi then
           (if x - lo < hi - x then lo
            else if hi - x < x - lo then hi
            else if even (x div p) then lo else hi)
         else if okLo then lo
         else if okHi then hi
         else shortest_decimal x e)"

definition printed_integer :: "int \<Rightarrow> int" where
  "printed_integer x = shortest_decimal x (decimal_length x - 1)"

text \<open>
  \<^verbatim>\<open>ToBigInt\<close>, which a store into a BigInt typed array applies. A Number is a TypeError.
  An Array goes through its string, which must be an integer literal: the string of an
  integer-valued Number below \<open>10 ^ 21\<close> is one, that of any other Number is not.
\<close>

fun ToBigInt :: "jsval \<Rightarrow> error + int" where
  "ToBigInt Undefined = Inl TypeError"
| "ToBigInt (Number n) = Inl TypeError"
| "ToBigInt (BigInt b) = Inr b"
| "ToBigInt (Array []) = Inr 0"
| "ToBigInt (Array [Undefined]) = Inr 0"
| "ToBigInt (Array [Number n]) =
     (case n of
        Num r \<Rightarrow>
          if of_int \<lfloor>r\<rfloor> = r \<and> \<bar>r\<bar> < 10 ^ 21
          then Inr (sgn \<lfloor>r\<rfloor> * printed_integer \<bar>\<lfloor>r\<rfloor>\<bar>)
          else Inl SyntaxError
      | _ \<Rightarrow> Inl SyntaxError)"
| "ToBigInt (Array [BigInt b]) = Inr b"
| "ToBigInt (Array [Array ys]) = ToBigInt (Array ys)"
| "ToBigInt (Array (x # y # zs)) = Inl SyntaxError"

fun is_bigint_kind :: "dtype \<Rightarrow> bool" where
  "is_bigint_kind Uint64 = True"
| "is_bigint_kind Int64 = True"
| "is_bigint_kind d = False"

fun is_signed_kind :: "dtype \<Rightarrow> bool" where
  "is_signed_kind Int8 = True"
| "is_signed_kind Int16 = True"
| "is_signed_kind Int32 = True"
| "is_signed_kind Int64 = True"
| "is_signed_kind d = False"

definition js_truncate :: "real \<Rightarrow> int" where
  "js_truncate r = (if r < 0 then \<lceil>r\<rceil> else \<lfloor>r\<rfloor>)"

text \<open>
  The integer conversions of the typed arrays (\<^verbatim>\<open>ToUint8\<close>, \<^verbatim>\<open>ToInt8\<close>, ...): modulo
  \<open>2 ^ w\<close>, and for the signed kinds the upper half reads as negative.
\<close>

definition wrap_int :: "dtype \<Rightarrow> int \<Rightarrow> int" where
  "wrap_int d k =
     (let m = 2 ^ (BYTES_PER_ELEMENT d * 8); u = k mod m
      in if is_signed_kind d \<and> u \<ge> m div 2 then u - m else u)"

text \<open>
  What a Number typed array of kind \<open>d\<close> holds after a Number is stored. A Float64Array
  keeps the Number; a Float32Array rounds it to the nearest single-precision value, which
  is the parameter \<open>fround\<close> (\<^verbatim>\<open>Math.fround\<close>) of everything that writes into a typed array;
  an integer array truncates towards zero and wraps, and stores 0 for NaN and the
  infinities.
\<close>

definition number_to_element :: "(real \<Rightarrow> number) \<Rightarrow> dtype \<Rightarrow> number \<Rightarrow> number" where
  "number_to_element fround d n =
     (case d of
        Float64 \<Rightarrow> n
      | Float32 \<Rightarrow> (case n of Num r \<Rightarrow> fround r | _ \<Rightarrow> n)
      | _ \<Rightarrow> (case n of Num r \<Rightarrow> Num (of_int (wrap_int d (js_truncate r))) | _ \<Rightarrow> Num 0))"

definition to_element :: "(real \<Rightarrow> number) \<Rightarrow> dtype \<Rightarrow> jsval \<Rightarrow> error + jsval" where
  "to_element fround d v =
     (if is_bigint_kind d then
        (case ToBigInt v of Inl e \<Rightarrow> Inl e | Inr b \<Rightarrow> Inr (BigInt (wrap_int d b)))
      else
        (case ToNumber v of
           Inl e \<Rightarrow> Inl e
         | Inr n \<Rightarrow> Inr (Number (number_to_element fround d n))))"

record typedarray =
  kind :: dtype
  elems :: "jsval list"

text \<open>
  The typed arrays live in a heap, so that two handles can name the same storage. A
  handle is an index into the heap; allocation appends.
\<close>

type_synonym addr = nat
type_synonym heap = "typedarray list"

definition zero_element :: "dtype \<Rightarrow> jsval" where
  "zero_element d = (if is_bigint_kind d then BigInt 0 else Number (Num 0))"

text \<open>
  \<^verbatim>\<open>new TypedArray(length)\<close>: zero-filled; a negative length is a RangeError. (So is a
  length beyond what the engine allocates, a limit that is not modelled.)
\<close>

definition new_typedarray :: "dtype \<Rightarrow> int \<Rightarrow> error + typedarray" where
  "new_typedarray d n =
     (if n < 0 then Inl RangeError
      else Inr \<lparr>kind = d, elems = replicate (nat n) (zero_element d)\<rparr>)"

definition alloc :: "heap \<Rightarrow> typedarray \<Rightarrow> addr \<times> heap" where
  "alloc h ta = (length h, h @ [ta])"

text \<open>\<^verbatim>\<open>ta[idx]\<close>: \<^verbatim>\<open>undefined\<close> outside the array.\<close>

definition ta_read :: "heap \<Rightarrow> addr \<Rightarrow> int \<Rightarrow> jsval" where
  "ta_read h a idx =
     (if 0 \<le> idx \<and> idx < int (length (elems (h ! a))) then elems (h ! a) ! nat idx
      else Undefined)"

text \<open>
  \<^verbatim>\<open>ta[idx] = v\<close>: the value is converted first (and the conversion can throw); a write
  outside the array is then dropped.
\<close>

definition ta_write :: "(real \<Rightarrow> number) \<Rightarrow> heap \<Rightarrow> addr \<Rightarrow> int \<Rightarrow> jsval \<Rightarrow> error + heap" where
  "ta_write fround h a idx v =
     (case to_element fround (kind (h ! a)) v of
        Inl e \<Rightarrow> Inl e
      | Inr x \<Rightarrow>
          Inr (if 0 \<le> idx \<and> idx < int (length (elems (h ! a)))
               then h[a := (h ! a)\<lparr>elems := (elems (h ! a))[nat idx := x]\<rparr>]
               else h))"

section \<open>Nested arrays and conversion\<close>

datatype data_arg = TypedArray addr | GenericArray "jsval list"

text \<open>\<^verbatim>\<open>guessDtype\<close>: the kind of a typed array, \<^verbatim>\<open>null\<close> for anything else.\<close>

fun guessDtype :: "heap \<Rightarrow> data_arg option \<Rightarrow> dtype option" where
  "guessDtype h (Some (TypedArray a)) = Some (kind (h ! a))"
| "guessDtype h _ = None"

fun isGenericArray :: "data_arg option \<Rightarrow> bool" where
  "isGenericArray (Some (GenericArray xs)) = True"
| "isGenericArray _ = False"

text \<open>
  \<^verbatim>\<open>getNestedArrayShape\<close>: the loop digs along the first elements only, pushing each
  length; the second argument is the shape pushed so far.
\<close>

fun getNestedArrayShape_loop :: "jsval \<Rightarrow> int list \<Rightarrow> error + int list" where
  "getNestedArrayShape_loop (Array []) shape = Inl EmptyArray"
| "getNestedArrayShape_loop (Array (x # xs)) shape =
     getNestedArrayShape_loop x (shape @ [int (length (x # xs))])"
| "getNestedArrayShape_loop v shape = Inr shape"

definition getNestedArrayShape :: "jsval list \<Rightarrow> error + int list" where
  "getNestedArrayShape arr = getNestedArrayShape_loop (Array arr) []"

text \<open>\<^verbatim>\<open>arr.flat(depth)\<close>.\<close>

fun flat :: "nat \<Rightarrow> jsval list \<Rightarrow> jsval list" where
  "flat 0 xs = xs"
| "flat (Suc d) xs =
     concat (map (\<lambda>x. case x of Array ys \<Rightarrow> flat d ys | _ \<Rightarrow> [x]) xs)"

text \<open>\<^verbatim>\<open>xs.reduce((a, b) => a * b)\<close>: a TypeError on an empty array.\<close>

fun reduce_mul :: "int list \<Rightarrow> error + int" where
  "reduce_mul [] = Inl TypeError"
| "reduce_mul (x # xs) = Inr (foldl (\<lambda>a b. a * b) x xs)"

definition flattenNestedArray :: "jsval list \<Rightarrow> error + (jsval list \<times> int list)" where
  "flattenNestedArray arr =
     (case getNestedArrayShape arr of
        Inl e \<Rightarrow> Inl e
      | Inr shape \<Rightarrow>
          (let array = flat (length shape) arr in
           case reduce_mul shape of
             Inl e \<Rightarrow> Inl e
           | Inr expectedLength \<Rightarrow>
               if expectedLength \<noteq> int (length array) then Inl SizeInconsistencies
               else Inr (array, shape)))"

text \<open>
  The loop of \<^verbatim>\<open>copyDataAsType\<close>: each element is clamped on the target's bounds and
  stored into the fresh typed array, which converts it; the function returns the
  elements of that array.
\<close>

fun copyDataAsType_loop ::
  "(real \<Rightarrow> number) \<Rightarrow> dtype \<Rightarrow> bound \<Rightarrow> jsval list \<Rightarrow> error + jsval list" where
  "copyDataAsType_loop fround targetDtype bounds [] = Inr []"
| "copyDataAsType_loop fround targetDtype bounds (x # xs) =
     (let boundedValue =
            (if js_lt x (Number (min_bound bounds)) then Number (min_bound bounds)
             else if js_gt x (Number (max_bound bounds)) then Number (max_bound bounds)
             else x)
      in case to_element fround targetDtype boundedValue of
           Inl e \<Rightarrow> Inl e
         | Inr y \<Rightarrow>
             (case copyDataAsType_loop fround targetDtype bounds xs of
                Inl e \<Rightarrow> Inl e
              | Inr ys \<Rightarrow> Inr (y # ys)))"

fun data_elems :: "heap \<Rightarrow> data_arg \<Rightarrow> jsval list" where
  "data_elems h (TypedArray a) = elems (h ! a)"
| "data_elems h (GenericArray xs) = xs"

text \<open>
  \<^verbatim>\<open>copyDataAsType\<close>: a typed array of the target kind is duplicated by \<^verbatim>\<open>slice()\<close>;
  anything else is converted element by element. Both allocate.
\<close>

definition copyDataAsType ::
  "(real \<Rightarrow> number) \<Rightarrow> heap \<Rightarrow> data_arg \<Rightarrow> dtype \<Rightarrow> error + (addr \<times> heap)" where
  "copyDataAsType fround h arr targetDtype =
     (let guessedDtype = guessDtype h (Some arr) in
      if guessedDtype = Some targetDtype then
        Inr (alloc h \<lparr>kind = targetDtype, elems = data_elems h arr\<rparr>)
      else
        (let bounds = DTYPE_TO_BOUND targetDtype in
         case copyDataAsType_loop fround targetDtype bounds (data_elems h arr) of
           Inl e \<Rightarrow> Inl e
         | Inr ys \<Rightarrow> Inr (alloc h \<lparr>kind = targetDtype, elems = ys\<rparr>)))"

section \<open>The raster\<close>

record raster =
  r_data :: addr
  r_dtype :: "dtype option"
  r_shape :: "int list"
  r_strides :: "int list"
  r_typeBound :: "bound option"

text \<open>
  The shape setter. The stride loop runs \<open>i\<close> from \<open>length - 2\<close> down to \<open>0\<close>; the first
  argument of the loop function is \<open>i + 1\<close>. For an empty shape the assignment
  \<^verbatim>\<open>this._strides[-1] = 1\<close> adds a property to the array and no element.

  The total and the strides are written over the integers. They are the Numbers of the
  source as long as every product of leading entries and of trailing entries has a
  magnitude of at most \<open>2 ^ 53\<close> (\<open>exact_products\<close> below), which holds for every shape
  without a zero entry that the source accepts on a typed array. Beyond that the doubles
  of the source round, overflow to an infinity, and give NaN when an infinity meets a
  zero entry; the integers here do not follow them there.
\<close>

fun strides_loop :: "nat \<Rightarrow> int list \<Rightarrow> int list \<Rightarrow> int list" where
  "strides_loop 0 shape strides = strides"
| "strides_loop (Suc i) shape strides =
     strides_loop i shape (strides[i := shape ! (i + 1) * strides ! (i + 1)])"

definition compute_strides :: "int list \<Rightarrow> int list" where
  "compute_strides shape =
     (if shape = [] then []
      else strides_loop (length shape - 1) shape
             ((replicate (length shape) 0)[length shape - 1 := 1]))"

definition NdRaster_set_shape :: "heap \<Rightarrow> raster \<Rightarrow> int list \<Rightarrow> error + raster" where
  "NdRaster_set_shape h r shape =
     (let total = foldl (\<lambda>t s. t * s) 1 shape in
      if total \<noteq> int (length (elems (h ! r_data r))) then Inl ShapeMismatch
      else Inr (r\<lparr>r_shape := shape, r_strides := compute_strides shape\<rparr>))"

record options =
  opt_dtype :: "dtype option"
  opt_copy :: bool
  opt_shape :: "int list option"
  opt_data :: "data_arg option"

text \<open>
  The constructor, first part: the branches that establish \<^verbatim>\<open>_data\<close> and \<^verbatim>\<open>_dtype\<close> and may
  replace the shape. The branch without data leaves \<^verbatim>\<open>_dtype\<close> at \<^verbatim>\<open>null\<close>.
\<close>

definition constructor_data ::
  "(real \<Rightarrow> number) \<Rightarrow> heap \<Rightarrow> options \<Rightarrow>
     error + (addr \<times> dtype option \<times> int list option \<times> heap)" where
  "constructor_data fround h opts =
     (let providedDtype = opt_dtype opts;
          copy = opt_copy opts;
          shape = opt_shape opts;
          arr = opt_data opts;
          guessedDtype = guessDtype h arr;
          dtypeToUse = (case providedDtype of Some d \<Rightarrow> d | None \<Rightarrow> Float64)
      in case arr of
           None \<Rightarrow>
             (case shape of
                None \<Rightarrow> Inl NoShapeNoData
              | Some sh \<Rightarrow>
                  (case reduce_mul sh of
                     Inl e \<Rightarrow> Inl e
                   | Inr expectedLength \<Rightarrow>
                       (case new_typedarray dtypeToUse expectedLength of
                          Inl e \<Rightarrow> Inl e
                        | Inr ta \<Rightarrow>
                            (let (a, h') = alloc h ta in Inr (a, None, shape, h')))))
         | Some d \<Rightarrow>
             if isGenericArray arr
                \<or> (guessedDtype \<noteq> Some dtypeToUse \<and> providedDtype \<noteq> None)
                \<or> copy
             then
               (case d of
                  GenericArray xs \<Rightarrow>
                    (case flattenNestedArray xs of
                       Inl e \<Rightarrow> Inl e
                     | Inr (array, arrShape) \<Rightarrow>
                         (case copyDataAsType fround h (GenericArray array) dtypeToUse of
                            Inl e \<Rightarrow> Inl e
                          | Inr (a, h') \<Rightarrow>
                              Inr (a, Some dtypeToUse,
                                   (case shape of None \<Rightarrow> Some arrShape | Some sh \<Rightarrow> Some sh),
                                   h')))
                | TypedArray b \<Rightarrow>
                    (case copyDataAsType fround h d dtypeToUse of
                       Inl e \<Rightarrow> Inl e
                     | Inr (a, h') \<Rightarrow> Inr (a, Some dtypeToUse, shape, h')))
             else if guessedDtype \<noteq> None \<and> copy then
               (case copyDataAsType fround h d (the guessedDtype) of
                  Inl e \<Rightarrow> Inl e
                | Inr (a, h') \<Rightarrow> Inr (a, Some dtypeToUse, shape, h'))
             else if guessedDtype \<noteq> None \<and> \<not> copy then
               (case d of
                  TypedArray b \<Rightarrow> Inr (b, guessedDtype, shape, h)
                | GenericArray xs \<Rightarrow> Inl InvalidData)
             else Inl InvalidData)"

text \<open>
  The constructor, second part: the shape (the given one, else the one found by the
  flattening, else the length of the data) goes through the setter, and \<^verbatim>\<open>_typeBound\<close> is
  looked up under \<^verbatim>\<open>_dtype\<close>, which gives \<^verbatim>\<open>undefined\<close> when \<^verbatim>\<open>_dtype\<close> is \<^verbatim>\<open>null\<close>.
\<close>

definition NdRaster_constructor ::
  "(real \<Rightarrow> number) \<Rightarrow> heap \<Rightarrow> options \<Rightarrow> error + (raster \<times> heap)" where
  "NdRaster_constructor fround h opts =
     (case constructor_data fround h opts of
        Inl e \<Rightarrow> Inl e
      | Inr (a, dt, shape, h') \<Rightarrow>
          (let this = \<lparr>r_data = a, r_dtype = dt, r_shape = [], r_strides = [],
                       r_typeBound = None\<rparr>
           in case NdRaster_set_shape h' this
                     (case shape of Some sh \<Rightarrow> sh | None \<Rightarrow> [int (length (elems (h' ! a)))]) of
                Inl e \<Rightarrow> Inl e
              | Inr this' \<Rightarrow>
                  Inr (this'\<lparr>r_typeBound := map_option DTYPE_TO_BOUND dt\<rparr>, h')))"

section \<open>Addressing\<close>

text \<open>
  \<^verbatim>\<open>_throwIfInvalidPosition\<close>: the arity, then each component in ascending order; the
  result is the error thrown, if any. The second argument of the loop is \<open>i\<close>.
\<close>

fun position_loop :: "int list \<Rightarrow> nat \<Rightarrow> int list \<Rightarrow> error option" where
  "position_loop [] i shape = None"
| "position_loop (p # ps) i (s # ss) =
     (if p < 0 \<or> p > s - 1 then Some (PositionOutOfBound i)
      else position_loop ps (Suc i) ss)"
| "position_loop (p # ps) i [] =
     (if p < 0 then Some (PositionOutOfBound i) else position_loop ps (Suc i) [])"

definition throwIfInvalidPosition :: "raster \<Rightarrow> int list \<Rightarrow> error option" where
  "throwIfInvalidPosition this position =
     (if length position \<noteq> length (r_shape this) then Some PositionArity
      else position_loop position 0 (r_shape this))"

text \<open>
  The flat offset: the sum of \<open>position[i] * strides[i]\<close>. The setter keeps the strides as
  long as the shape, and the arity check keeps the position as long as the shape.
\<close>

fun dataOffset :: "int list \<Rightarrow> int list \<Rightarrow> int" where
  "dataOffset (p # ps) (s # ss) = p * s + dataOffset ps ss"
| "dataOffset _ _ = 0"

definition NdRaster_get :: "heap \<Rightarrow> raster \<Rightarrow> int list \<Rightarrow> error + jsval" where
  "NdRaster_get h this position =
     (case throwIfInvalidPosition this position of
        Some e \<Rightarrow> Inl e
      | None \<Rightarrow> Inr (ta_read h (r_data this) (dataOffset position (r_strides this))))"

text \<open>
  \<^verbatim>\<open>set\<close>: \<^verbatim>\<open>isNaN(value)\<close> converts the value to a Number (a TypeError on a BigInt); the
  two clamping tests are two separate \<^verbatim>\<open>if\<close>s; reading \<^verbatim>\<open>this._typeBound.min\<close> when
  \<^verbatim>\<open>_typeBound\<close> is \<^verbatim>\<open>undefined\<close> is a TypeError.
\<close>

definition NdRaster_set ::
  "(real \<Rightarrow> number) \<Rightarrow> heap \<Rightarrow> raster \<Rightarrow> int list \<Rightarrow> jsval \<Rightarrow> error + heap" where
  "NdRaster_set fround h this position v =
     (case ToNumber v of
        Inl e \<Rightarrow> Inl e
      | Inr n \<Rightarrow>
          if n = NaN then Inl ValueNotNumber
          else
            (case throwIfInvalidPosition this position of
               Some e \<Rightarrow> Inl e
             | None \<Rightarrow>
                 (case r_typeBound this of
                    None \<Rightarrow> Inl TypeError
                  | Some b \<Rightarrow>
                      (let boundedValue = v;
                           boundedValue =
                             (if js_lt v (Number (min_bound b)) then Number (min_bound b)
                              else boundedValue);
                           boundedValue =
                             (if js_gt v (Number (max_bound b)) then Number (max_bound b)
                              else boundedValue)
                       in ta_write fround h (r_data this)
                            (dataOffset position (r_strides this)) boundedValue))))"

section \<open>Copy and slice\<close>

definition NdRaster_copy ::
  "(real \<Rightarrow> number) \<Rightarrow> heap \<Rightarrow> raster \<Rightarrow> dtype option \<Rightarrow> error + (raster \<times> heap)" where
  "NdRaster_copy fround h this opt =
     (case (case opt of Some d \<Rightarrow> Some d | None \<Rightarrow> r_dtype this) of
        None \<Rightarrow> Inl InvalidDtype
      | Some dtype \<Rightarrow>
          (case (if Some dtype = r_dtype this then Inr (alloc h (h ! r_data this))
                 else copyDataAsType fround h (TypedArray (r_data this)) dtype) of
             Inl e \<Rightarrow> Inl e
           | Inr (dataCopy, h') \<Rightarrow>
               NdRaster_constructor fround h'
                 \<lparr>opt_dtype = None, opt_copy = False, opt_shape = Some (r_shape this),
                  opt_data = Some (TypedArray dataCopy)\<rparr>))"

record slice_options =
  sl_min :: "int list option"
  sl_max :: "int list option"
  sl_dtype :: "dtype option"
  sl_strict :: bool

definition shape_value :: "int list \<Rightarrow> jsval" where
  "shape_value shape = Array (map (\<lambda>s. Number (Num (of_int s))) shape)"

text \<open>
  The strict check, in ascending order of \<open>i\<close> (the third argument); the first argument
  is the whole \<^verbatim>\<open>this._shape\<close>, the array that the last comparison of the source reads.
\<close>

fun strict_loop ::
  "int list \<Rightarrow> int list \<Rightarrow> nat \<Rightarrow> int list \<Rightarrow> int list \<Rightarrow> error option" where
  "strict_loop shape (s # ss) i (mn # mns) (mx # mxs) =
     (if mn < 0 \<or> mn > s - 1 \<or> mx < 1
         \<or> js_gt (Number (Num (of_int mx))) (shape_value shape)
      then Some (StrictBoundaries i)
      else strict_loop shape ss (Suc i) mns mxs)"
| "strict_loop shape _ i _ _ = None"

text \<open>
  The traversal. \<^verbatim>\<open>DTYPE_TO_BOUND.min\<close> and \<^verbatim>\<open>DTYPE_TO_BOUND.max\<close> are properties that the
  registry, whose keys are the dtype tags, does not have: both are \<^verbatim>\<open>undefined\<close>. The
  result is \<open>None\<close> if the loop does not end.
\<close>

partial_function (option) slice_loop ::
  "(real \<Rightarrow> number) \<Rightarrow> raster \<Rightarrow> addr \<Rightarrow> int list \<Rightarrow> int list \<Rightarrow> heap \<Rightarrow> int list \<Rightarrow> int
     \<Rightarrow> (error + heap) option" where
  "slice_loop fround this buffer mn mx h incrementPos increment1D =
     (case NdRaster_get h this incrementPos of
        Inl e \<Rightarrow> Some (Inl e)
      | Inr v \<Rightarrow>
          (let v' = (if js_lt v Undefined then Undefined
                     else if js_gt v Undefined then Undefined
                     else v)
           in case ta_write fround h buffer increment1D v' of
                Inl e \<Rightarrow> Some (Inl e)
              | Inr h' \<Rightarrow>
                  (case getNextPosition incrementPos mn mx of
                     None \<Rightarrow> Some (Inr h')
                   | Some nextPos \<Rightarrow>
                       slice_loop fround this buffer mn mx h' nextPos (increment1D + 1))))"

declare slice_loop.simps [code]

definition NdRaster_slice ::
  "(real \<Rightarrow> number) \<Rightarrow> heap \<Rightarrow> raster \<Rightarrow> slice_options
     \<Rightarrow> (error + (raster \<times> heap)) option" where
  "NdRaster_slice fround h this opts =
     (let mn = (case sl_min opts of Some m \<Rightarrow> m | None \<Rightarrow> map (\<lambda>s. 0) (r_shape this));
          mx = (case sl_max opts of Some m \<Rightarrow> m | None \<Rightarrow> r_shape this);
          strict = sl_strict opts
      in case (case sl_dtype opts of Some d \<Rightarrow> Some d | None \<Rightarrow> r_dtype this) of
           None \<Rightarrow> Some (Inl InvalidDtype)
         | Some dtype \<Rightarrow>
             if sl_min opts = None \<and> sl_max opts = None
             then Some (NdRaster_copy fround h this (sl_dtype opts))
             else if length mn \<noteq> length (r_shape this) then Some (Inl BoundariesArity)
             else if length mx \<noteq> length (r_shape this) then Some (Inl BoundariesArity)
             else
               (case (if strict then strict_loop (r_shape this) (r_shape this) 0 mn mx
                      else None) of
                  Some e \<Rightarrow> Some (Inl e)
                | None \<Rightarrow>
                    (let mn = (if strict then mn else map (\<lambda>el. max el 0) mn);
                         mx = (if strict then mx
                               else map (\<lambda>(el, s). min el s) (zip mx (r_shape this)));
                         sliceShape = map (\<lambda>(el, m). el - m) (zip mx mn)
                     in case reduce_mul sliceShape of
                          Inl e \<Rightarrow> Some (Inl e)
                        | Inr expectedLength \<Rightarrow>
                            (case new_typedarray dtype expectedLength of
                               Inl e \<Rightarrow> Some (Inl e)
                             | Inr ta \<Rightarrow>
                                 (let (buffer, h1) = alloc h ta in
                                  case slice_loop fround this buffer mn mx h1 mn 0 of
                                    None \<Rightarrow> None
                                  | Some (Inl e) \<Rightarrow> Some (Inl e)
                                  | Some (Inr h2) \<Rightarrow>
                                      Some (NdRaster_constructor fround h2
                                        \<lparr>opt_dtype = None, opt_copy = False,
                                         opt_shape = Some sliceShape,
                                         opt_data = Some (TypedArray buffer)\<rparr>))))))"

section \<open>Invariants\<close>


text \<open>
  The shapes on which the arithmetic of the setter is exact in doubles: every product of
  leading entries and every product of trailing entries is an integer of magnitude at
  most \<open>2 ^ 53\<close>.
\<close>

definition exact_products :: "int list \<Rightarrow> bool" where
  "exact_products shape =
     list_all (\<lambda>k. \<bar>prod_list (take k shape)\<bar> \<le> 2 ^ 53 \<and> \<bar>prod_list (drop k shape)\<bar> \<le> 2 ^ 53)
       [0..<Suc (length shape)]"

text \<open>
  A valid position: the arity of the shape, and each component in \<open>[0, shape[i] - 1]\<close>.
\<close>

definition valid_position :: "int list \<Rightarrow> int list \<Rightarrow> bool" where
  "valid_position shape position = list_all2 (\<lambda>p s. 0 \<le> p \<and> p \<le> s - 1) position shape"

text \<open>
  Saturation as the specification words it: a value below the minimum becomes the
  minimum, a value above the maximum becomes the maximum.
\<close>

definition saturate :: "number \<Rightarrow> bound \<Rightarrow> number" where
  "saturate v b =
     (if num_lt v (min_bound b) then min_bound b
      else if num_lt (max_bound b) v then max_bound b
      else v)"

text \<open>Truncation towards zero of a finite Number.\<close>

fun trunc_number :: "number \<Rightarrow> number" where
  "trunc_number (Num r) = Num (of_int (js_truncate r))"
| "trunc_number n = n"

text \<open>
  A Raster of dtype \<open>d\<close> in a heap: its handle is allocated and names a typed array of
  kind \<open>d\<close>, its bounds are the registry's for \<open>d\<close>, its strides are those the setter
  computes, and the product of its shape is the length of its data. The constructor
  called with data returns such a Raster.
\<close>

definition raster_wf :: "heap \<Rightarrow> raster \<Rightarrow> dtype \<Rightarrow> bool" where
  "raster_wf h r d =
     (r_data r < length h \<and> kind (h ! r_data r) = d \<and> r_dtype r = Some d
      \<and> r_typeBound r = Some (DTYPE_TO_BOUND d)
      \<and> r_strides r = compute_strides (r_shape r)
      \<and> prod_list (r_shape r) = int (length (elems (h ! r_data r))))"

text \<open>The closed form of the strides, for the proofs: the products of the later sizes.\<close>

fun row_major :: "int list \<Rightarrow> int list" where
  "row_major [] = []"
| "row_major (s # ss) = prod_list ss # row_major ss"


text \<open>
  The representable range of an integer kind of width \<open>w\<close>: \<open>[0, 2 ^ w - 1]\<close> unsigned,
  \<open>[- 2 ^ (w - 1), 2 ^ (w - 1) - 1]\<close> signed.
\<close>

definition storage_min :: "dtype \<Rightarrow> int" where
  "storage_min d = (if is_signed_kind d then - (2 ^ (BYTES_PER_ELEMENT d * 8 - 1)) else 0)"

definition storage_max :: "dtype \<Rightarrow> int" where
  "storage_max d =
     (if is_signed_kind d then 2 ^ (BYTES_PER_ELEMENT d * 8 - 1) - 1
      else 2 ^ (BYTES_PER_ELEMENT d * 8) - 1)"


section \<open>Lemmas on the rounding\<close>

lemma bit_length_le: "bit_length n \<le> k \<longleftrightarrow> n < 2 ^ k"
proof (induction n arbitrary: k rule: bit_length.induct)
  case (1 n)
  show ?case
  proof (cases "n \<le> 0")
    case True
    have "(0::int) < 2 ^ k" by simp
    with True have "n < 2 ^ k" by linarith
    with True show ?thesis by (simp add: bit_length.simps [of n])
  next
    case False
    show ?thesis
    proof (cases k)
      case 0
      with False show ?thesis by (simp add: bit_length.simps [of n])
    next
      case (Suc j)
      from "1.IH" [OF False, of j]
      have "bit_length (n div 2) \<le> j \<longleftrightarrow> n div 2 < 2 ^ j" .
      moreover have "n div 2 < 2 ^ j \<longleftrightarrow> n < 2 ^ Suc j" by auto
      ultimately show ?thesis using False Suc by (simp add: bit_length.simps [of n])
    qed
  qed
qed

lemma double_of_int_exact [simp]:
  "\<bar>z\<bar> < 2 ^ 53 \<Longrightarrow> double_of_int z = Num (of_int z)"
proof -
  assume "\<bar>z\<bar> < 2 ^ 53"
  then have "bit_length \<bar>z\<bar> \<le> 53" by (simp only: bit_length_le)
  then show ?thesis by (simp add: double_of_int_def Let_def)
qed

lemma printed_integer_examples:
  "printed_integer 1234 = 1234"
  "printed_integer (2 ^ 60) = 1152921504606847000"
  "printed_integer (2 ^ 64) = 18446744073709552000"
  by code_simp+

lemma double_of_int_2_63 [simp]:
  "double_of_int 9223372036854775807 = Num 9223372036854775808"
  by code_simp

section \<open>Lemmas on the shape setter\<close>

lemma foldl_mult_prod: "foldl (\<lambda>t s. t * s) a xs = a * prod_list (xs :: int list)"
  by (induction xs arbitrary: a) (simp_all add: mult.assoc)

lemma strides_loop_length: "length (strides_loop k shape st) = length st"
  by (induction k arbitrary: st) simp_all

lemma strides_loop_above: "k \<le> j \<Longrightarrow> strides_loop k shape st ! j = st ! j"
  by (induction k arbitrary: st) simp_all

lemma strides_loop_rec:
  "i < k \<Longrightarrow> k < length st \<Longrightarrow>
     strides_loop k shape st ! i = shape ! (i + 1) * strides_loop k shape st ! (i + 1)"
proof (induction k arbitrary: st)
  case 0
  then show ?case by simp
next
  case (Suc k)
  let ?st = "st[k := shape ! (k + 1) * st ! (k + 1)]"
  show ?case
  proof (cases "i < k")
    case True
    with Suc.IH [of ?st] Suc.prems show ?thesis by simp
  next
    case False
    with Suc.prems have ik: "i = k" by simp
    have "strides_loop k shape ?st ! k = ?st ! k"
      by (rule strides_loop_above) simp
    moreover have "strides_loop k shape ?st ! (k + 1) = ?st ! (k + 1)"
      by (rule strides_loop_above) simp
    ultimately show ?thesis using Suc.prems ik by simp
  qed
qed

lemma compute_strides_length: "length (compute_strides shape) = length shape"
  by (simp add: compute_strides_def strides_loop_length)

lemma compute_strides_last:
  "shape \<noteq> [] \<Longrightarrow> compute_strides shape ! (length shape - 1) = 1"
proof -
  assume ne: "shape \<noteq> []"
  have "strides_loop (length shape - 1) shape
          ((replicate (length shape) 0)[length shape - 1 := 1]) ! (length shape - 1)
        = ((replicate (length shape) 0)[length shape - 1 := 1]) ! (length shape - 1)"
    by (rule strides_loop_above) simp
  with ne show ?thesis by (simp add: compute_strides_def)
qed

lemma compute_strides_rec:
  "i + 1 < length shape \<Longrightarrow>
     compute_strides shape ! i = shape ! (i + 1) * compute_strides shape ! (i + 1)"
proof -
  assume lt: "i + 1 < length shape"
  then have ne: "shape \<noteq> []" by auto
  have "strides_loop (length shape - 1) shape
          ((replicate (length shape) 0)[length shape - 1 := 1]) ! i
        = shape ! (i + 1) * strides_loop (length shape - 1) shape
          ((replicate (length shape) 0)[length shape - 1 := 1]) ! (i + 1)"
    by (rule strides_loop_rec) (use lt in simp_all)
  with ne show ?thesis by (simp add: compute_strides_def)
qed




section \<open>Lemmas on addressing and storing\<close>

lemma position_loop_valid:
  "length p = length shape \<Longrightarrow>
     (position_loop p i shape = None) = list_all2 (\<lambda>p s. 0 \<le> p \<and> p \<le> s - 1) p shape"
  by (induction p shape arbitrary: i rule: list_induct2) auto

lemma throwIfInvalidPosition_valid:
  "(throwIfInvalidPosition r p = None) = valid_position (r_shape r) p"
  using position_loop_valid [of p "r_shape r" 0]
  by (auto simp: throwIfInvalidPosition_def valid_position_def dest: list_all2_lengthD)

lemma row_major_length: "length (row_major shape) = length shape"
  by (induction shape) simp_all

lemma row_major_nth:
  "i < length shape \<Longrightarrow> row_major shape ! i = prod_list (drop (Suc i) shape)"
  by (induction shape arbitrary: i) (auto simp: nth_Cons split: nat.splits)

lemma compute_strides_nth:
  "j < length shape \<Longrightarrow>
     compute_strides shape ! (length shape - 1 - j) = prod_list (drop (length shape - j) shape)"
proof (induction j)
  case 0
  then have "shape \<noteq> []" by auto
  then show ?case using compute_strides_last [of shape] by simp
next
  case (Suc j)
  let ?i = "length shape - 1 - Suc j"
  from Suc.prems have i: "?i + 1 < length shape" "?i + 1 = length shape - 1 - j"
    "Suc (?i + 1) = length shape - j" by auto
  have "compute_strides shape ! ?i = shape ! (?i + 1) * compute_strides shape ! (?i + 1)"
    using i(1) by (rule compute_strides_rec)
  also have "\<dots> = shape ! (?i + 1) * prod_list (drop (Suc (?i + 1)) shape)"
    using Suc i by simp
  also have "\<dots> = prod_list (drop (?i + 1) shape)"
    using Cons_nth_drop_Suc [OF i(1)] by (metis prod_list.Cons)
  finally show ?case using Suc.prems by (simp add: Suc_diff_Suc)
qed

lemma compute_strides_row_major: "compute_strides shape = row_major shape"
proof (rule nth_equalityI)
  show "length (compute_strides shape) = length (row_major shape)"
    by (simp add: compute_strides_length row_major_length)
next
  fix i assume "i < length (compute_strides shape)"
  then have i: "i < length shape" by (simp add: compute_strides_length)
  then have "compute_strides shape ! (length shape - 1 - (length shape - 1 - i))
      = prod_list (drop (length shape - (length shape - 1 - i)) shape)"
    by (intro compute_strides_nth) simp
  moreover have "length shape - 1 - (length shape - 1 - i) = i"
    "length shape - (length shape - 1 - i) = Suc i" using i by auto
  ultimately show "compute_strides shape ! i = row_major shape ! i"
    using i by (simp add: row_major_nth)
qed

lemma dataOffset_row_major:
  "list_all2 (\<lambda>p s. 0 \<le> p \<and> p \<le> s - 1) p shape \<Longrightarrow>
     0 \<le> dataOffset p (row_major shape) \<and> dataOffset p (row_major shape) < prod_list shape"
proof (induction rule: list_all2_induct)
  case Nil
  then show ?case by simp
next
  case (Cons x xs s ss)
  let ?o = "dataOffset xs (row_major ss)"
  from Cons have o: "0 \<le> ?o" "?o < prod_list ss" and x: "0 \<le> x" "x + 1 \<le> s" by auto
  have "x * prod_list ss + ?o < (x + 1) * prod_list ss" using o by (simp add: algebra_simps)
  also have "\<dots> \<le> s * prod_list ss" using x o by (intro mult_right_mono) auto
  finally show ?case using x o by simp
qed

lemma dataOffset_in_range:
  "raster_wf h r d \<Longrightarrow> valid_position (r_shape r) p \<Longrightarrow>
     0 \<le> dataOffset p (r_strides r)
     \<and> dataOffset p (r_strides r) < int (length (elems (h ! r_data r)))"
  using dataOffset_row_major [of p "r_shape r"]
  by (simp add: raster_wf_def valid_position_def compute_strides_row_major)

lemma ta_write_read:
  assumes "a < length h" "0 \<le> off" "off < int (length (elems (h ! a)))"
    and "to_element fround (kind (h ! a)) v = Inr x"
  shows "ta_write fround h a off v
           = Inr (h[a := (h ! a)\<lparr>elems := (elems (h ! a))[nat off := x]\<rparr>])"
    and "ta_read (h[a := (h ! a)\<lparr>elems := (elems (h ! a))[nat off := x]\<rparr>]) a off = x"
  using assms by (simp_all add: ta_write_def ta_read_def)

lemma num_lt_chain: "num_lt v lo \<Longrightarrow> num_lt hi v \<Longrightarrow> num_lt lo hi \<Longrightarrow> False"
  by (cases v; cases lo; cases hi) auto

lemma bounds_ordered:
  "num_lt (min_bound (DTYPE_TO_BOUND d)) (max_bound (DTYPE_TO_BOUND d))"
  by (cases d) simp_all

lemma two_ifs_saturate:
  "(if js_gt (Number n) (Number (max_bound (DTYPE_TO_BOUND d)))
    then Number (max_bound (DTYPE_TO_BOUND d))
    else if js_lt (Number n) (Number (min_bound (DTYPE_TO_BOUND d)))
         then Number (min_bound (DTYPE_TO_BOUND d)) else Number n)
   = Number (saturate n (DTYPE_TO_BOUND d))"
  using num_lt_chain [OF _ _ bounds_ordered, of n d]
  by (auto simp: js_lt_def js_gt_def saturate_def)

lemma set_get:
  fixes fround :: "real \<Rightarrow> number"
  assumes wf: "raster_wf h r d" and valid: "valid_position (r_shape r) p"
    and d: "\<not> is_bigint_kind d" and n: "n \<noteq> NaN"
  defines "x \<equiv> Number (number_to_element fround d (saturate n (DTYPE_TO_BOUND d)))"
  defines "h' \<equiv> h[r_data r := (h ! r_data r)
                 \<lparr>elems := (elems (h ! r_data r))[nat (dataOffset p (r_strides r)) := x]\<rparr>]"
  shows "NdRaster_set fround h r p (Number n) = Inr h'"
    and "NdRaster_get h' r p = Inr x"
proof -
  from wf have a: "r_data r < length h" and k: "kind (h ! r_data r) = d"
    and tb: "r_typeBound r = Some (DTYPE_TO_BOUND d)"
    by (simp_all add: raster_wf_def)
  from dataOffset_in_range [OF wf valid]
  have off: "0 \<le> dataOffset p (r_strides r)"
    "dataOffset p (r_strides r) < int (length (elems (h ! r_data r)))" by simp_all
  have pos: "throwIfInvalidPosition r p = None"
    using valid by (simp add: throwIfInvalidPosition_valid)
  have el: "to_element fround (kind (h ! r_data r))
              (Number (saturate n (DTYPE_TO_BOUND d))) = Inr x"
    using d by (simp add: to_element_def k x_def)
  show "NdRaster_set fround h r p (Number n) = Inr h'"
    using n pos tb ta_write_read(1) [OF a off el]
    by (simp add: NdRaster_set_def Let_def two_ifs_saturate h'_def)
  show "NdRaster_get h' r p = Inr x"
    using pos ta_write_read(2) [OF a off el]
    by (simp add: NdRaster_get_def h'_def)
qed

lemma js_truncate_bounds:
  "of_int lo \<le> y \<Longrightarrow> y \<le> of_int hi \<Longrightarrow> lo \<le> js_truncate y \<and> js_truncate y \<le> hi"
  by (auto simp: js_truncate_def le_floor_iff ceiling_le_iff floor_le_iff le_ceiling_iff)



lemma wrap_signed:
  assumes "- (m :: int) \<le> k" "k < m" "0 < m" "M = 2 * m"
  shows "(if k mod M \<ge> m then k mod M - M else k mod M) = k"
proof (cases "k < 0")
  case True
  have "(k + M) mod M = k + M"
    using assms True by (intro mod_pos_pos_trivial) auto
  then have "k mod M = k + M" by simp
  with assms True show ?thesis by simp
next
  case False
  then have "k mod M = k" using assms by (intro mod_pos_pos_trivial) auto
  with assms show ?thesis by simp
qed

lemma wrap_int_in_range:
  assumes "d \<in> {Uint8, Int8, Uint16, Int16, Uint32, Int32}"
    and "storage_min d \<le> k" "k \<le> storage_max d"
  shows "wrap_int d k = k"
proof -
  have s8: "(if k mod 256 \<ge> 128 then k mod 256 - 256 else k mod 256) = k"
    if "- 128 \<le> k" "k < 128" using wrap_signed [of 128 k 256] that by simp
  have s16: "(if k mod 65536 \<ge> 32768 then k mod 65536 - 65536 else k mod 65536) = k"
    if "- 32768 \<le> k" "k < 32768" using wrap_signed [of 32768 k 65536] that by simp
  have s32: "(if k mod 4294967296 \<ge> 2147483648 then k mod 4294967296 - 4294967296
              else k mod 4294967296) = k"
    if "- 2147483648 \<le> k" "k < 2147483648" using wrap_signed [of 2147483648 k 4294967296] that by simp
  from assms consider "d = Uint8" | "d = Int8" | "d = Uint16" | "d = Int16" | "d = Uint32"
    | "d = Int32" by auto
  then show ?thesis
  proof cases
    case 1 with assms show ?thesis by (simp add: wrap_int_def storage_min_def storage_max_def)
  next
    case 2 with assms s8 show ?thesis
      by (simp add: wrap_int_def storage_min_def storage_max_def)
  next
    case 3 with assms show ?thesis by (simp add: wrap_int_def storage_min_def storage_max_def)
  next
    case 4 with assms s16 show ?thesis
      by (simp add: wrap_int_def storage_min_def storage_max_def)
  next
    case 5 with assms show ?thesis by (simp add: wrap_int_def storage_min_def storage_max_def)
  next
    case 6 with assms s32 show ?thesis
      by (simp add: wrap_int_def storage_min_def storage_max_def)
  qed
qed

lemma registry_is_storage_range:
  "d \<in> {Uint8, Int8, Int16, Int32} \<Longrightarrow>
     DTYPE_TO_BOUND d = \<lparr>min_bound = Num (of_int (storage_min d)),
                         max_bound = Num (of_int (storage_max d))\<rparr>"
  by (auto simp: storage_min_def storage_max_def)

lemma saturate_finite:
  assumes "n \<noteq> NaN"
  shows "\<exists>y. saturate n \<lparr>min_bound = Num (of_int lo), max_bound = Num (of_int hi)\<rparr> = Num y
             \<and> (lo \<le> hi \<longrightarrow> of_int lo \<le> y \<and> y \<le> of_int hi)
             \<and> (trunc_number n = n \<longrightarrow> of_int (js_truncate y) = y)"
  using assms by (cases n) (auto simp: saturate_def js_truncate_def)

lemma element_truncated:
  assumes d: "d \<in> {Uint8, Int8, Int16, Int32}" and n: "n \<noteq> NaN"
  shows "number_to_element fround d (saturate n (DTYPE_TO_BOUND d))
           = trunc_number (saturate n (DTYPE_TO_BOUND d))"
    and "trunc_number n = n \<Longrightarrow>
           trunc_number (saturate n (DTYPE_TO_BOUND d)) = saturate n (DTYPE_TO_BOUND d)"
proof -
  have le: "storage_min d \<le> storage_max d"
    using d by (auto simp: storage_min_def storage_max_def)
  from saturate_finite [OF n, of "storage_min d" "storage_max d"] le
  obtain y where y: "saturate n (DTYPE_TO_BOUND d) = Num y"
    and range: "of_int (storage_min d) \<le> y" "y \<le> of_int (storage_max d)"
    and int: "trunc_number n = n \<longrightarrow> of_int (js_truncate y) = y"
    using registry_is_storage_range [OF d] by auto
  from js_truncate_bounds [OF range]
  have "wrap_int d (js_truncate y) = js_truncate y"
    using d by (intro wrap_int_in_range) auto
  then show "number_to_element fround d (saturate n (DTYPE_TO_BOUND d))
           = trunc_number (saturate n (DTYPE_TO_BOUND d))"
    using d y by (auto simp: number_to_element_def)
  show "trunc_number (saturate n (DTYPE_TO_BOUND d)) = saturate n (DTYPE_TO_BOUND d)"
    if "trunc_number n = n"
    using that int y by simp
qed

lemma saturate_float64: "n \<noteq> NaN \<Longrightarrow> saturate n (DTYPE_TO_BOUND Float64) = n"
  by (cases n) (simp_all add: saturate_def)


section \<open>Lemmas on the constructor\<close>

lemma copyDataAsType_fresh:
  assumes "copyDataAsType fround h arr target = Inr (a, h')"
  shows "a = length h \<and> (\<exists>ta. h' = h @ [ta] \<and> kind ta = target)"
  using assms
  by (auto simp: copyDataAsType_def alloc_def Let_def split: if_splits sum.splits)

lemma constructor_data_cases:
  assumes "constructor_data fround h opts = Inr (a, dt, shape, h')"
    and "opt_data opts = Some dat"
  shows "(\<exists>d ta. a = length h \<and> h' = h @ [ta] \<and> kind ta = d \<and> dt = Some d)
         \<or> (dat = TypedArray a \<and> h' = h \<and> dt = Some (kind (h ! a)) \<and> \<not> opt_copy opts
             \<and> shape = opt_shape opts
             \<and> (opt_dtype opts = None \<or> opt_dtype opts = Some (kind (h ! a))))"
  using assms
  by (cases dat)
     (auto simp: constructor_data_def Let_def
           split: if_splits sum.splits prod.splits option.splits
           dest!: copyDataAsType_fresh)


lemma constructor_unfold:
  assumes "NdRaster_constructor fround h opts = Inr (r, h')"
  obtains a dt shape shp where
    "constructor_data fround h opts = Inr (a, dt, shape, h')"
    and "shp = (case shape of Some sh \<Rightarrow> sh | None \<Rightarrow> [int (length (elems (h' ! a)))])"
    and "prod_list shp = int (length (elems (h' ! a)))"
    and "r = \<lparr>r_data = a, r_dtype = dt, r_shape = shp, r_strides = compute_strides shp,
              r_typeBound = map_option DTYPE_TO_BOUND dt\<rparr>"
  using assms
  by (auto simp: NdRaster_constructor_def NdRaster_set_shape_def Let_def foldl_mult_prod
           split: sum.splits prod.splits if_splits)

lemma constructor_wf:
  assumes c: "NdRaster_constructor fround h opts = Inr (r, h')"
    and dat: "opt_data opts = Some dat"
    and alloc: "\<forall>a. dat = TypedArray a \<longrightarrow> a < length h"
  shows "\<exists>d. raster_wf h' r d"
proof -
  from c obtain a dt shape shp where
    cd: "constructor_data fround h opts = Inr (a, dt, shape, h')"
    and total: "prod_list shp = int (length (elems (h' ! a)))"
    and r: "r = \<lparr>r_data = a, r_dtype = dt, r_shape = shp, r_strides = compute_strides shp,
                 r_typeBound = map_option DTYPE_TO_BOUND dt\<rparr>"
    by (rule constructor_unfold)
  from constructor_data_cases [OF cd dat] alloc
  have "\<exists>d. a < length h' \<and> kind (h' ! a) = d \<and> dt = Some d"
    by (auto simp: nth_append)
  with total r show ?thesis by (auto simp: raster_wf_def)
qed

lemma set_frame:
  assumes "NdRaster_set fround h r p v = Inr h''" and "a \<noteq> r_data r"
  shows "h'' ! a = h ! a"
  using assms
  by (auto simp: NdRaster_set_def ta_write_def Let_def
           split: sum.splits option.splits if_splits)

lemma set_Number_success:
  assumes "NdRaster_set fround h r p (Number n) = Inr h''" and "raster_wf h r d"
  shows "valid_position (r_shape r) p \<and> \<not> is_bigint_kind d \<and> n \<noteq> NaN"
  using assms
  by (auto simp: NdRaster_set_def ta_write_def to_element_def Let_def raster_wf_def
                 throwIfInvalidPosition_valid [symmetric]
           split: sum.splits option.splits if_splits)

lemma constructor_data_alias:
  assumes "opt_data opts = Some (TypedArray a)" "\<not> opt_copy opts"
    "opt_dtype opts = None \<or> opt_dtype opts = Some (kind (h ! a))"
  shows "constructor_data fround h opts = Inr (a, Some (kind (h ! a)), opt_shape opts, h)"
  using assms by (auto simp: constructor_data_def Let_def)

lemma constructor_data_copy:
  assumes "opt_data opts = Some (TypedArray a)"
    "opt_copy opts \<or> (\<exists>d. opt_dtype opts = Some d \<and> d \<noteq> kind (h ! a))"
    "constructor_data fround h opts = Inr (b, dt, shape, h')"
  shows "b = length h \<and> (\<exists>ta. h' = h @ [ta])"
  using assms
  by (auto simp: constructor_data_def Let_def split: sum.splits prod.splits if_splits
           dest!: copyDataAsType_fresh)


section \<open>Lemmas on the integer conversion\<close>

lemma integer_element:
  "d \<in> {Uint8, Int8, Uint16, Int16, Uint32, Int32} \<Longrightarrow>
     number_to_element fround d (Num y) = Num (of_int (wrap_int d (js_truncate y)))"
  by (auto simp: number_to_element_def)

lemma copyDataAsType_loop_Numbers:
  "\<not> is_bigint_kind d \<Longrightarrow>
     copyDataAsType_loop fround d b (map Number ns)
       = Inr (map (\<lambda>n. Number (number_to_element fround d (saturate n b))) ns)"
  by (induction ns) (simp_all add: js_lt_def js_gt_def saturate_def to_element_def)

lemma truncate_in_storage:
  assumes d: "d \<in> {Uint8, Int8, Uint16, Int16, Uint32, Int32}"
    and lo: "\<not> num_lt (Num x) (min_bound (DTYPE_TO_BOUND d))"
    and hi: "\<not> num_lt (max_bound (DTYPE_TO_BOUND d)) (Num x)"
    and c: "d \<in> {Uint8, Int8, Int16, Int32} \<or> - 1 < x"
  shows "wrap_int d (js_truncate x) = js_truncate x"
proof (cases "d \<in> {Uint8, Int8, Int16, Int32}")
  case True
  from lo hi registry_is_storage_range [OF True]
  have "of_int (storage_min d) \<le> x" "x \<le> of_int (storage_max d)" by simp_all
  from js_truncate_bounds [OF this] d show ?thesis by (intro wrap_int_in_range) auto
next
  case False
  with d c have d2: "d = Uint16 \<or> d = Uint32" and x: "- 1 < x" by auto
  from x have "0 \<le> js_truncate x"
    by (auto simp: js_truncate_def le_ceiling_iff)
  moreover have "js_truncate x \<le> storage_max d"
  proof -
    from d2 hi have "x \<le> of_int (storage_max d)"
      by (auto simp: storage_max_def)
    moreover from d2 lo have "of_int (- (storage_max d) - 1) \<le> x"
      by (auto simp: storage_max_def)
    ultimately show ?thesis using js_truncate_bounds by blast
  qed
  ultimately show ?thesis using d2 d
    by (intro wrap_int_in_range) (auto simp: storage_min_def)
qed


lemma copyDataAsType_Numbers:
  assumes "kind (h ! a) \<noteq> d" and "\<not> is_bigint_kind d"
    and "elems (h ! a) = map Number ns"
  shows "copyDataAsType fround h (TypedArray a) d
         = Inr (length h,
                h @ [\<lparr>kind = d,
                       elems = map (\<lambda>n. Number (number_to_element fround d
                                                   (saturate n (DTYPE_TO_BOUND d)))) ns\<rparr>])"
  using assms
  by (simp add: copyDataAsType_def alloc_def copyDataAsType_loop_Numbers)

text \<open>
  On a Raster of an integer dtype of 8, 16 or 32 bits, \<^verbatim>\<open>set\<close> of a non-integer Number
  within the registry's bounds succeeds, and \<^verbatim>\<open>get\<close> then returns the integer that the
  typed array made of it; that integer is the Number truncated towards zero on uint8,
  int8, int16 and int32, and on uint16 and uint32 for a Number above \<open>-1\<close>.
\<close>

lemma integer_store_truncates:
  assumes wf: "raster_wf h r d" and valid: "valid_position (r_shape r) p"
    and d: "d \<in> {Uint8, Int8, Uint16, Int16, Uint32, Int32}"
    and x: "x \<notin> \<int>"
    and lo: "\<not> num_lt (Num x) (min_bound (DTYPE_TO_BOUND d))"
    and hi: "\<not> num_lt (max_bound (DTYPE_TO_BOUND d)) (Num x)"
  shows "(\<exists>h'. NdRaster_set fround h r p (Number (Num x)) = Inr h'
            \<and> NdRaster_get h' r p = Inr (Number (Num (of_int (wrap_int d (js_truncate x)))))
            \<and> NdRaster_get h' r p \<noteq> Inr (Number (Num x))
            \<and> (d \<in> {Uint8, Int8, Int16, Int32} \<or> - 1 < x
                 \<longrightarrow> NdRaster_get h' r p = Inr (Number (Num (of_int (js_truncate x))))))
         \<and> copyDataAsType_loop fround d (DTYPE_TO_BOUND d) (map Number ns)
             = Inr (map (\<lambda>n. Number (number_to_element fround d
                                        (saturate n (DTYPE_TO_BOUND d)))) ns)
         \<and> number_to_element fround d (Num y) = Num (of_int (wrap_int d (js_truncate y)))"
proof (intro conjI)
  from d have nb: "\<not> is_bigint_kind d" by auto
  have sat: "saturate (Num x) (DTYPE_TO_BOUND d) = Num x"
    using lo hi by (simp add: saturate_def)
  have ne: "of_int k \<noteq> x" for k :: int using x by auto
  from set_get [OF wf valid nb, of "Num x" fround]
  obtain h' where s: "NdRaster_set fround h r p (Number (Num x)) = Inr h'"
    and g: "NdRaster_get h' r p = Inr (Number (Num (of_int (wrap_int d (js_truncate x)))))"
    by (simp add: sat integer_element [OF d])
  show "\<exists>h'. NdRaster_set fround h r p (Number (Num x)) = Inr h'
            \<and> NdRaster_get h' r p = Inr (Number (Num (of_int (wrap_int d (js_truncate x)))))
            \<and> NdRaster_get h' r p \<noteq> Inr (Number (Num x))
            \<and> (d \<in> {Uint8, Int8, Int16, Int32} \<or> - 1 < x
                 \<longrightarrow> NdRaster_get h' r p = Inr (Number (Num (of_int (js_truncate x)))))"
    using s g ne truncate_in_storage [OF d lo hi] by auto
  show "copyDataAsType_loop fround d (DTYPE_TO_BOUND d) (map Number ns)
             = Inr (map (\<lambda>n. Number (number_to_element fround d
                                        (saturate n (DTYPE_TO_BOUND d)))) ns)"
    using nb by (rule copyDataAsType_loop_Numbers)
  show "number_to_element fround d (Num y) = Num (of_int (wrap_int d (js_truncate y)))"
    using d by (rule integer_element)
qed

section \<open>Properties\<close>

text \<open>
  Claim C2, at the tag \<^verbatim>\<open>uint16\<close>: the registry's pair is \<open>(-32768, 32767)\<close>, the range of
  the signed 16-bit kind, and not the unsigned range \<open>[0, 65535]\<close>; \<^verbatim>\<open>uint32\<close> likewise has
  the signed 32-bit range, while \<^verbatim>\<open>uint8\<close> has \<open>[0, 255]\<close>.
\<close>

theorem C2_uint16_bound:
  "DTYPE_TO_BOUND Uint16 = \<lparr>min_bound = Num (- 32768), max_bound = Num 32767\<rparr>
   \<and> DTYPE_TO_BOUND Uint16 = DTYPE_TO_BOUND Int16
   \<and> DTYPE_TO_BOUND Uint32 = \<lparr>min_bound = Num (- 2147483648), max_bound = Num 2147483647\<rparr>
   \<and> DTYPE_TO_BOUND Uint8 = \<lparr>min_bound = Num 0, max_bound = Num 255\<rparr>"
  by simp

text \<open>
  Claim C8, at a position whose slow coordinate lies outside the box: the fast coordinate
  is advanced and the position is returned, without a look at the slow coordinate.
\<close>

theorem C8_out_of_box_successor:
  "getNextPosition [5, 0] [0, 0] [2, 2] = Some [5, 1]"
  by (simp add: getNextPosition_def numeral_2_eq_2)

text \<open>
  Claim C3, on a one-dimensional float64 Raster holding \<open>300\<close> and \<open>1\<close>, sliced over its
  whole extent into \<^verbatim>\<open>uint8\<close>: the constructor builds the Raster, the slice stores \<open>300\<close>
  unclamped, so that the Uint8Array wraps it to \<open>44\<close>, and \<^verbatim>\<open>copy\<close> to the same dtype
  (through \<^verbatim>\<open>copyDataAsType\<close>) stores the saturated \<open>255\<close>.
\<close>

theorem C3_slice_stores_unclamped:
  "NdRaster_constructor fround
     [\<lparr>kind = Float64, elems = [Number (Num 300), Number (Num 1)]\<rparr>]
     \<lparr>opt_dtype = None, opt_copy = False, opt_shape = None, opt_data = Some (TypedArray 0)\<rparr>
   = Inr (\<lparr>r_data = 0, r_dtype = Some Float64, r_shape = [2], r_strides = [1],
            r_typeBound = Some \<lparr>min_bound = NegInfinity, max_bound = PosInfinity\<rparr>\<rparr>,
          [\<lparr>kind = Float64, elems = [Number (Num 300), Number (Num 1)]\<rparr>])
   \<and> NdRaster_slice fround
     [\<lparr>kind = Float64, elems = [Number (Num 300), Number (Num 1)]\<rparr>]
     \<lparr>r_data = 0, r_dtype = Some Float64, r_shape = [2], r_strides = [1],
      r_typeBound = Some \<lparr>min_bound = NegInfinity, max_bound = PosInfinity\<rparr>\<rparr>
     \<lparr>sl_min = Some [0], sl_max = Some [2], sl_dtype = Some Uint8, sl_strict = False\<rparr>
   = Some (Inr (\<lparr>r_data = 1, r_dtype = Some Uint8, r_shape = [2], r_strides = [1],
                  r_typeBound = Some \<lparr>min_bound = Num 0, max_bound = Num 255\<rparr>\<rparr>,
                [\<lparr>kind = Float64, elems = [Number (Num 300), Number (Num 1)]\<rparr>,
                 \<lparr>kind = Uint8, elems = [Number (Num 44), Number (Num 1)]\<rparr>]))
   \<and> NdRaster_copy fround
     [\<lparr>kind = Float64, elems = [Number (Num 300), Number (Num 1)]\<rparr>]
     \<lparr>r_data = 0, r_dtype = Some Float64, r_shape = [2], r_strides = [1],
      r_typeBound = Some \<lparr>min_bound = NegInfinity, max_bound = PosInfinity\<rparr>\<rparr>
     (Some Uint8)
   = Inr (\<lparr>r_data = 1, r_dtype = Some Uint8, r_shape = [2], r_strides = [1],
            r_typeBound = Some \<lparr>min_bound = Num 0, max_bound = Num 255\<rparr>\<rparr>,
          [\<lparr>kind = Float64, elems = [Number (Num 300), Number (Num 1)]\<rparr>,
           \<lparr>kind = Uint8, elems = [Number (Num 255), Number (Num 1)]\<rparr>])"
  by code_simp

text \<open>
  Claim C4, on a \<open>2 \<times> 2\<close> float64 Raster, sliced in strict mode with \<open>min = [0, 1]\<close> and
  \<open>max = [3, 1]\<close>: \<open>max[0] = 3\<close> exceeds \<open>shape[0] = 2\<close>, and the slice raises nothing; it
  allocates a buffer and returns a Raster of shape \<open>[3, 0]\<close>. The last test of the strict
  check compares \<open>max[i]\<close> with the whole shape array, which reads as NaN here. On a
  one-dimensional Raster the array reads as its only entry, and the same check rejects
  \<open>max = [5]\<close> on the shape \<open>[4]\<close>.
\<close>

theorem C4_strict_slice_accepts_max_beyond_shape:
  "NdRaster_constructor fround
     [\<lparr>kind = Float64,
       elems = [Number (Num 0), Number (Num 1), Number (Num 2), Number (Num 3)]\<rparr>]
     \<lparr>opt_dtype = None, opt_copy = False, opt_shape = Some [2, 2],
      opt_data = Some (TypedArray 0)\<rparr>
   = Inr (\<lparr>r_data = 0, r_dtype = Some Float64, r_shape = [2, 2], r_strides = [2, 1],
            r_typeBound = Some \<lparr>min_bound = NegInfinity, max_bound = PosInfinity\<rparr>\<rparr>,
          [\<lparr>kind = Float64,
            elems = [Number (Num 0), Number (Num 1), Number (Num 2), Number (Num 3)]\<rparr>])
   \<and> NdRaster_slice fround
     [\<lparr>kind = Float64,
       elems = [Number (Num 0), Number (Num 1), Number (Num 2), Number (Num 3)]\<rparr>]
     \<lparr>r_data = 0, r_dtype = Some Float64, r_shape = [2, 2], r_strides = [2, 1],
      r_typeBound = Some \<lparr>min_bound = NegInfinity, max_bound = PosInfinity\<rparr>\<rparr>
     \<lparr>sl_min = Some [0, 1], sl_max = Some [3, 1], sl_dtype = None, sl_strict = True\<rparr>
   = Some (Inr (\<lparr>r_data = 1, r_dtype = Some Float64, r_shape = [3, 0], r_strides = [0, 1],
                  r_typeBound = Some \<lparr>min_bound = NegInfinity, max_bound = PosInfinity\<rparr>\<rparr>,
                [\<lparr>kind = Float64,
                  elems = [Number (Num 0), Number (Num 1), Number (Num 2), Number (Num 3)]\<rparr>,
                 \<lparr>kind = Float64, elems = []\<rparr>]))
   \<and> NdRaster_slice fround
     [\<lparr>kind = Float64,
       elems = [Number (Num 0), Number (Num 1), Number (Num 2), Number (Num 3)]\<rparr>]
     \<lparr>r_data = 0, r_dtype = Some Float64, r_shape = [4], r_strides = [1],
      r_typeBound = Some \<lparr>min_bound = NegInfinity, max_bound = PosInfinity\<rparr>\<rparr>
     \<lparr>sl_min = Some [0], sl_max = Some [5], sl_dtype = None, sl_strict = True\<rparr>
   = Some (Inl (StrictBoundaries 0))"
  by code_simp

text \<open>
  Claim C9, on the nested inputs \<^verbatim>\<open>[[1, 2], [3], [4, 5, 6]]\<close> (sub-sequences of three
  different lengths) and \<^verbatim>\<open>[[1, 2], [], [3, 4, 5, 6]]\<close> (an empty sub-sequence): both are
  accepted, with the shape \<open>[3, 2]\<close> read off the first sub-sequence, because the flattened
  length happens to be \<open>3 * 2\<close>. The input \<^verbatim>\<open>[[1, 2], [3]]\<close> is rejected, its flattened
  length being \<open>3\<close>, and the regular \<^verbatim>\<open>[[1, 2, 3], [4, 5, 6]]\<close> gives the shape \<open>[2, 3]\<close>
  over the row-major data.
\<close>

theorem C9_irregular_nested_accepted:
  "NdRaster_constructor fround []
     \<lparr>opt_dtype = None, opt_copy = False, opt_shape = None,
      opt_data = Some (GenericArray
        [Array [Number (Num 1), Number (Num 2)],
         Array [Number (Num 3)],
         Array [Number (Num 4), Number (Num 5), Number (Num 6)]])\<rparr>
   = Inr (\<lparr>r_data = 0, r_dtype = Some Float64, r_shape = [3, 2], r_strides = [2, 1],
            r_typeBound = Some \<lparr>min_bound = NegInfinity, max_bound = PosInfinity\<rparr>\<rparr>,
          [\<lparr>kind = Float64,
            elems = [Number (Num 1), Number (Num 2), Number (Num 3),
                     Number (Num 4), Number (Num 5), Number (Num 6)]\<rparr>])
   \<and> NdRaster_constructor fround []
     \<lparr>opt_dtype = None, opt_copy = False, opt_shape = None,
      opt_data = Some (GenericArray
        [Array [Number (Num 1), Number (Num 2)],
         Array [],
         Array [Number (Num 3), Number (Num 4), Number (Num 5), Number (Num 6)]])\<rparr>
   = Inr (\<lparr>r_data = 0, r_dtype = Some Float64, r_shape = [3, 2], r_strides = [2, 1],
            r_typeBound = Some \<lparr>min_bound = NegInfinity, max_bound = PosInfinity\<rparr>\<rparr>,
          [\<lparr>kind = Float64,
            elems = [Number (Num 1), Number (Num 2), Number (Num 3),
                     Number (Num 4), Number (Num 5), Number (Num 6)]\<rparr>])
   \<and> NdRaster_constructor fround []
     \<lparr>opt_dtype = None, opt_copy = False, opt_shape = None,
      opt_data = Some (GenericArray
        [Array [Number (Num 1), Number (Num 2)], Array [Number (Num 3)]])\<rparr>
   = Inl SizeInconsistencies
   \<and> NdRaster_constructor fround []
     \<lparr>opt_dtype = None, opt_copy = False, opt_shape = None,
      opt_data = Some (GenericArray
        [Array [Number (Num 1), Number (Num 2), Number (Num 3)],
         Array [Number (Num 4), Number (Num 5), Number (Num 6)]])\<rparr>
   = Inr (\<lparr>r_data = 0, r_dtype = Some Float64, r_shape = [2, 3], r_strides = [3, 1],
            r_typeBound = Some \<lparr>min_bound = NegInfinity, max_bound = PosInfinity\<rparr>\<rparr>,
          [\<lparr>kind = Float64,
            elems = [Number (Num 1), Number (Num 2), Number (Num 3),
                     Number (Num 4), Number (Num 5), Number (Num 6)]\<rparr>])"
  by code_simp



text \<open>
  Claim C7 as stated fails: on a Raster over one element, the setter accepts the empty
  shape and the shape \<open>[-1, -1]\<close>, whose products are \<open>1\<close>.
\<close>

theorem C7_counterexample:
  "NdRaster_set_shape
     [\<lparr>kind = Float64, elems = [Number (Num 7)]\<rparr>]
     \<lparr>r_data = 0, r_dtype = Some Float64, r_shape = [1], r_strides = [1],
      r_typeBound = Some (DTYPE_TO_BOUND Float64)\<rparr> []
   = Inr \<lparr>r_data = 0, r_dtype = Some Float64, r_shape = [], r_strides = [],
          r_typeBound = Some (DTYPE_TO_BOUND Float64)\<rparr>
   \<and> NdRaster_set_shape
     [\<lparr>kind = Float64, elems = [Number (Num 7)]\<rparr>]
     \<lparr>r_data = 0, r_dtype = Some Float64, r_shape = [1], r_strides = [1],
      r_typeBound = Some (DTYPE_TO_BOUND Float64)\<rparr> [- 1, - 1]
   = Inr \<lparr>r_data = 0, r_dtype = Some Float64, r_shape = [- 1, - 1], r_strides = [- 1, 1],
          r_typeBound = Some (DTYPE_TO_BOUND Float64)\<rparr>"
  by code_simp

text \<open>
  Claim C7, amended: on a shape whose leading and trailing products stay within
  \<open>2 ^ 53\<close> in magnitude, the setter fails exactly when the product of the shape differs
  from the length of the data; such a shape with the right product is accepted and
  installed with its strides, be it empty or with entries that are not positive.
\<close>

theorem C7_shape_accepted_iff_product:
  "exact_products shape \<Longrightarrow>
   NdRaster_set_shape h r shape =
     (if prod_list shape = int (length (elems (h ! r_data r)))
      then Inr (r\<lparr>r_shape := shape, r_strides := compute_strides shape\<rparr>)
      else Inl ShapeMismatch)"
  by (simp add: NdRaster_set_shape_def Let_def foldl_mult_prod)

theorem C7_shape_accepted_iff_product_witness:
  "exact_products [2, 3]
   \<and> NdRaster_set_shape
     [\<lparr>kind = Uint8, elems = replicate 6 (Number (Num 0))\<rparr>]
     \<lparr>r_data = 0, r_dtype = Some Uint8, r_shape = [6], r_strides = [1],
      r_typeBound = Some (DTYPE_TO_BOUND Uint8)\<rparr> [2, 3]
   = Inr \<lparr>r_data = 0, r_dtype = Some Uint8, r_shape = [2, 3], r_strides = [3, 1],
          r_typeBound = Some (DTYPE_TO_BOUND Uint8)\<rparr>
   \<and> exact_products [4, 2]
   \<and> NdRaster_set_shape
     [\<lparr>kind = Uint8, elems = replicate 6 (Number (Num 0))\<rparr>]
     \<lparr>r_data = 0, r_dtype = Some Uint8, r_shape = [6], r_strides = [1],
      r_typeBound = Some (DTYPE_TO_BOUND Uint8)\<rparr> [4, 2]
   = Inl ShapeMismatch
   \<and> exact_products [0, 5]
   \<and> NdRaster_set_shape
     [\<lparr>kind = Uint8, elems = []\<rparr>]
     \<lparr>r_data = 0, r_dtype = Some Uint8, r_shape = [0], r_strides = [1],
      r_typeBound = Some (DTYPE_TO_BOUND Uint8)\<rparr> [0, 5]
   = Inr \<lparr>r_data = 0, r_dtype = Some Uint8, r_shape = [0, 5], r_strides = [5, 1],
          r_typeBound = Some (DTYPE_TO_BOUND Uint8)\<rparr>"
proof -
  have a: "exact_products [2, 3]" and b: "exact_products [4, 2]"
    and c: "exact_products [0, 5]"
    by (simp_all add: exact_products_def upt_rec)
  have s: "compute_strides [2, 3] = [3, 1]" "compute_strides [0, 5] = [5, 1]"
    by code_simp+
  from C7_shape_accepted_iff_product [OF a,
         of "[\<lparr>kind = Uint8, elems = replicate 6 (Number (Num 0))\<rparr>]"
            "\<lparr>r_data = 0, r_dtype = Some Uint8, r_shape = [6], r_strides = [1],
              r_typeBound = Some (DTYPE_TO_BOUND Uint8)\<rparr>"]
       C7_shape_accepted_iff_product [OF b,
         of "[\<lparr>kind = Uint8, elems = replicate 6 (Number (Num 0))\<rparr>]"
            "\<lparr>r_data = 0, r_dtype = Some Uint8, r_shape = [6], r_strides = [1],
              r_typeBound = Some (DTYPE_TO_BOUND Uint8)\<rparr>"]
       C7_shape_accepted_iff_product [OF c,
         of "[\<lparr>kind = Uint8, elems = []\<rparr>]"
            "\<lparr>r_data = 0, r_dtype = Some Uint8, r_shape = [0], r_strides = [1],
              r_typeBound = Some (DTYPE_TO_BOUND Uint8)\<rparr>"]
       a b c s
  show ?thesis by simp
qed

text \<open>
  Claim C1 as stated fails: on the uint8 Raster that the constructor builds over a
  two-element Uint8Array, \<^verbatim>\<open>set([1], 1.5)\<close> stores \<open>1\<close>, and \<^verbatim>\<open>get([1])\<close> returns \<open>1\<close>, while
  \<open>1.5\<close> saturated into \<open>[0, 255]\<close> is \<open>1.5\<close>.
\<close>

lemma uint8_fraction_eval:
  "NdRaster_constructor fround
     [\<lparr>kind = Uint8, elems = [Number (Num 0), Number (Num 0)]\<rparr>]
     \<lparr>opt_dtype = None, opt_copy = False, opt_shape = None, opt_data = Some (TypedArray 0)\<rparr>
   = Inr (\<lparr>r_data = 0, r_dtype = Some Uint8, r_shape = [2], r_strides = [1],
            r_typeBound = Some \<lparr>min_bound = Num 0, max_bound = Num 255\<rparr>\<rparr>,
          [\<lparr>kind = Uint8, elems = [Number (Num 0), Number (Num 0)]\<rparr>])
   \<and> NdRaster_set fround
     [\<lparr>kind = Uint8, elems = [Number (Num 0), Number (Num 0)]\<rparr>]
     \<lparr>r_data = 0, r_dtype = Some Uint8, r_shape = [2], r_strides = [1],
      r_typeBound = Some \<lparr>min_bound = Num 0, max_bound = Num 255\<rparr>\<rparr>
     [1] (Number (Num (3 / 2)))
   = Inr [\<lparr>kind = Uint8, elems = [Number (Num 0), Number (Num 1)]\<rparr>]
   \<and> NdRaster_get
     [\<lparr>kind = Uint8, elems = [Number (Num 0), Number (Num 1)]\<rparr>]
     \<lparr>r_data = 0, r_dtype = Some Uint8, r_shape = [2], r_strides = [1],
      r_typeBound = Some \<lparr>min_bound = Num 0, max_bound = Num 255\<rparr>\<rparr>
     [1]
   = Inr (Number (Num 1))
   \<and> saturate (Num (3 / 2)) \<lparr>min_bound = Num 0, max_bound = Num 255\<rparr> = Num (3 / 2)
   \<and> Number (Num 1) \<noteq> Number (Num (3 / 2))"
  by code_simp

theorem C1_counterexample:
  "NdRaster_constructor Num
     [\<lparr>kind = Uint8, elems = [Number (Num 0), Number (Num 0)]\<rparr>]
     \<lparr>opt_dtype = None, opt_copy = False, opt_shape = None, opt_data = Some (TypedArray 0)\<rparr>
   = Inr (\<lparr>r_data = 0, r_dtype = Some Uint8, r_shape = [2], r_strides = [1],
            r_typeBound = Some \<lparr>min_bound = Num 0, max_bound = Num 255\<rparr>\<rparr>,
          [\<lparr>kind = Uint8, elems = [Number (Num 0), Number (Num 0)]\<rparr>])
   \<and> NdRaster_set Num
     [\<lparr>kind = Uint8, elems = [Number (Num 0), Number (Num 0)]\<rparr>]
     \<lparr>r_data = 0, r_dtype = Some Uint8, r_shape = [2], r_strides = [1],
      r_typeBound = Some \<lparr>min_bound = Num 0, max_bound = Num 255\<rparr>\<rparr>
     [1] (Number (Num (3 / 2)))
   = Inr [\<lparr>kind = Uint8, elems = [Number (Num 0), Number (Num 1)]\<rparr>]
   \<and> NdRaster_get
     [\<lparr>kind = Uint8, elems = [Number (Num 0), Number (Num 1)]\<rparr>]
     \<lparr>r_data = 0, r_dtype = Some Uint8, r_shape = [2], r_strides = [1],
      r_typeBound = Some \<lparr>min_bound = Num 0, max_bound = Num 255\<rparr>\<rparr>
     [1]
   = Inr (Number (Num 1))
   \<and> saturate (Num (3 / 2)) \<lparr>min_bound = Num 0, max_bound = Num 255\<rparr> = Num (3 / 2)
   \<and> Number (Num 1) \<noteq> Number (Num (3 / 2))"
  by (rule uint8_fraction_eval)

text \<open>
  Claim C1, amended: on a Raster of dtype uint8, int8, int16, int32 or float64, at a
  valid position, \<^verbatim>\<open>set\<close> of a Number other than NaN succeeds, and \<^verbatim>\<open>get\<close> then returns
  the saturated value truncated towards zero (the saturated value itself for float64);
  for an integer-valued or infinite Number this is the saturated value.
\<close>

theorem C1_set_get_truncated_saturation:
  assumes "raster_wf h r d" and "valid_position (r_shape r) p"
    and "d \<in> {Uint8, Int8, Int16, Int32, Float64}" and "n \<noteq> NaN"
  shows "\<exists>h'. NdRaster_set fround h r p (Number n) = Inr h'
           \<and> NdRaster_get h' r p
               = Inr (Number (if d = Float64 then saturate n (DTYPE_TO_BOUND d)
                              else trunc_number (saturate n (DTYPE_TO_BOUND d))))
           \<and> (trunc_number n = n \<longrightarrow>
                 NdRaster_get h' r p = Inr (Number (saturate n (DTYPE_TO_BOUND d))))"
proof -
  from assms(3) have nb: "\<not> is_bigint_kind d" by auto
  note sg = set_get [OF assms(1,2) nb assms(4), of fround]
  show ?thesis
  proof (cases "d = Float64")
    case True
    then have "number_to_element fround d (saturate n (DTYPE_TO_BOUND d))
                 = saturate n (DTYPE_TO_BOUND d)"
      by (simp add: number_to_element_def)
    with sg True show ?thesis by auto
  next
    case False
    with assms(3) have d4: "d \<in> {Uint8, Int8, Int16, Int32}" by auto
    from element_truncated(1) [OF d4 assms(4), of fround]
      element_truncated(2) [OF d4 assms(4)] sg False
    show ?thesis by auto
  qed
qed

theorem C1_set_get_truncated_saturation_witness:
  "raster_wf [\<lparr>kind = Uint8, elems = [Number (Num 0), Number (Num 0)]\<rparr>]
     \<lparr>r_data = 0, r_dtype = Some Uint8, r_shape = [2], r_strides = [1],
      r_typeBound = Some \<lparr>min_bound = Num 0, max_bound = Num 255\<rparr>\<rparr> Uint8
   \<and> valid_position [2] [1]
   \<and> Uint8 \<in> {Uint8, Int8, Int16, Int32, Float64}
   \<and> Num 300 \<noteq> NaN
   \<and> (\<exists>h'. NdRaster_set (\<lambda>x. Num x)
              [\<lparr>kind = Uint8, elems = [Number (Num 0), Number (Num 0)]\<rparr>]
              \<lparr>r_data = 0, r_dtype = Some Uint8, r_shape = [2], r_strides = [1],
               r_typeBound = Some \<lparr>min_bound = Num 0, max_bound = Num 255\<rparr>\<rparr>
              [1] (Number (Num 300)) = Inr h'
          \<and> NdRaster_get h'
              \<lparr>r_data = 0, r_dtype = Some Uint8, r_shape = [2], r_strides = [1],
               r_typeBound = Some \<lparr>min_bound = Num 0, max_bound = Num 255\<rparr>\<rparr>
              [1] = Inr (Number (Num 255)))"
proof -
  have wf: "raster_wf [\<lparr>kind = Uint8, elems = [Number (Num 0), Number (Num 0)]\<rparr>]
     \<lparr>r_data = 0, r_dtype = Some Uint8, r_shape = [2], r_strides = [1],
      r_typeBound = Some \<lparr>min_bound = Num 0, max_bound = Num 255\<rparr>\<rparr> Uint8"
    by (simp add: raster_wf_def compute_strides_def)
  have valid: "valid_position
     (r_shape \<lparr>r_data = 0, r_dtype = Some Uint8, r_shape = [2], r_strides = [1],
       r_typeBound = Some \<lparr>min_bound = Num 0, max_bound = Num 255\<rparr>\<rparr>) [1]"
    by (simp add: valid_position_def)
  have d: "Uint8 \<in> {Uint8, Int8, Int16, Int32, Float64}" by simp
  have n: "Num 300 \<noteq> NaN" by simp
  have sat: "trunc_number (saturate (Num 300) (DTYPE_TO_BOUND Uint8)) = Num 255"
    by (simp add: saturate_def js_truncate_def)
  from C1_set_get_truncated_saturation [OF wf valid d n, of "\<lambda>x. Num x"] sat wf valid
  show ?thesis by auto
qed

text \<open>
  Claim C5. First half: constructing from a typed array in the heap, without \<^verbatim>\<open>copy\<close> and
  with no dtype or the array's own dtype, returns a Raster whose handle is that array and
  allocates nothing; a successful \<^verbatim>\<open>set\<close> of a Number through the Raster then changes the
  array behind the original handle, at the position's offset, to the stored value.
  Second half: with \<^verbatim>\<open>copy\<close>, or with a dtype other than the array's, the Raster's handle
  is another one, and neither the construction nor a later \<^verbatim>\<open>set\<close> through the Raster
  changes the array behind the original handle.
\<close>

theorem C5_aliasing:
  "(opt_data opts = Some (TypedArray a) \<and> a < length h \<and> \<not> opt_copy opts
      \<and> (opt_dtype opts = None \<or> opt_dtype opts = Some (kind (h ! a)))
      \<and> NdRaster_constructor fround h opts = Inr (r, h')
    \<longrightarrow> r_data r = a \<and> h' = h
        \<and> (NdRaster_set fround h' r p (Number n) = Inr h''
             \<longrightarrow> 0 \<le> dataOffset p (r_strides r)
               \<and> dataOffset p (r_strides r) < int (length (elems (h ! a)))
               \<and> elems (h'' ! a)
                   = (elems (h ! a))[nat (dataOffset p (r_strides r)) :=
                       Number (number_to_element fround (kind (h ! a))
                                (saturate n (DTYPE_TO_BOUND (kind (h ! a)))))]))
   \<and> (opt_data opts = Some (TypedArray a) \<and> a < length h
      \<and> (opt_copy opts \<or> (\<exists>d. opt_dtype opts = Some d \<and> d \<noteq> kind (h ! a)))
      \<and> NdRaster_constructor fround h opts = Inr (r, h')
    \<longrightarrow> r_data r \<noteq> a \<and> h' ! a = h ! a
        \<and> (NdRaster_set fround h' r p (Number n) = Inr h'' \<longrightarrow> h'' ! a = h ! a))"
proof (intro conjI impI; elim conjE)
  assume dat: "opt_data opts = Some (TypedArray a)" and a: "a < length h"
    and nc: "\<not> opt_copy opts"
    and dt: "opt_dtype opts = None \<or> opt_dtype opts = Some (kind (h ! a))"
    and c: "NdRaster_constructor fround h opts = Inr (r, h')"
  from c obtain b dt' shape shp where
    cd: "constructor_data fround h opts = Inr (b, dt', shape, h')"
    and r: "r = \<lparr>r_data = b, r_dtype = dt', r_shape = shp, r_strides = compute_strides shp,
                 r_typeBound = map_option DTYPE_TO_BOUND dt'\<rparr>"
    by (rule constructor_unfold)
  from cd constructor_data_alias [OF dat nc dt, of fround]
  have eq: "b = a" "h' = h" by simp_all
  with r show "r_data r = a" by simp
  show "h' = h" by (rule eq)
  from constructor_wf [OF c dat] a obtain d where wf: "raster_wf h' r d" by auto
  with eq r have d: "d = kind (h ! a)" and ra: "r_data r = a" by (simp_all add: raster_wf_def)
  assume s: "NdRaster_set fround h' r p (Number n) = Inr h''"
  from set_Number_success [OF s wf]
  have valid: "valid_position (r_shape r) p" and nb: "\<not> is_bigint_kind d" and n: "n \<noteq> NaN"
    by simp_all
  from set_get(1) [OF wf valid nb n, of fround] s
  have h'': "h'' = h'[r_data r := (h' ! r_data r)
        \<lparr>elems := (elems (h' ! r_data r))[nat (dataOffset p (r_strides r)) :=
            Number (number_to_element fround d (saturate n (DTYPE_TO_BOUND d)))]\<rparr>]"
    by simp
  from dataOffset_in_range [OF wf valid] eq ra
  show "0 \<le> dataOffset p (r_strides r)"
    "dataOffset p (r_strides r) < int (length (elems (h ! a)))" by simp_all
  show "elems (h'' ! a)
      = (elems (h ! a))[nat (dataOffset p (r_strides r)) :=
          Number (number_to_element fround (kind (h ! a))
                   (saturate n (DTYPE_TO_BOUND (kind (h ! a)))))]"
    using h'' eq ra d a by simp
next
  assume dat: "opt_data opts = Some (TypedArray a)" and a: "a < length h"
    and cp: "opt_copy opts \<or> (\<exists>d. opt_dtype opts = Some d \<and> d \<noteq> kind (h ! a))"
    and c: "NdRaster_constructor fround h opts = Inr (r, h')"
  from c obtain b dt' shape shp where
    cd: "constructor_data fround h opts = Inr (b, dt', shape, h')"
    and r: "r = \<lparr>r_data = b, r_dtype = dt', r_shape = shp, r_strides = compute_strides shp,
                 r_typeBound = map_option DTYPE_TO_BOUND dt'\<rparr>"
    by (rule constructor_unfold)
  from constructor_data_copy [OF dat cp cd] obtain ta where
    b: "b = length h" and h': "h' = h @ [ta]" by auto
  from b r a show ne: "r_data r \<noteq> a" by simp
  from h' a show same: "h' ! a = h ! a" by (simp add: nth_append)
  assume s: "NdRaster_set fround h' r p (Number n) = Inr h''"
  from ne have "a \<noteq> r_data r" by simp
  from set_frame [OF s this] same show "h'' ! a = h ! a" by simp
qed

theorem C5_aliasing_witness:
  "NdRaster_constructor (\<lambda>x. Num x)
     [\<lparr>kind = Uint8, elems = [Number (Num 0), Number (Num 0)]\<rparr>]
     \<lparr>opt_dtype = None, opt_copy = False, opt_shape = None, opt_data = Some (TypedArray 0)\<rparr>
   = Inr (\<lparr>r_data = 0, r_dtype = Some Uint8, r_shape = [2], r_strides = [1],
            r_typeBound = Some \<lparr>min_bound = Num 0, max_bound = Num 255\<rparr>\<rparr>,
          [\<lparr>kind = Uint8, elems = [Number (Num 0), Number (Num 0)]\<rparr>])
   \<and> NdRaster_set (\<lambda>x. Num x)
     [\<lparr>kind = Uint8, elems = [Number (Num 0), Number (Num 0)]\<rparr>]
     \<lparr>r_data = 0, r_dtype = Some Uint8, r_shape = [2], r_strides = [1],
      r_typeBound = Some \<lparr>min_bound = Num 0, max_bound = Num 255\<rparr>\<rparr>
     [1] (Number (Num 300))
   = Inr [\<lparr>kind = Uint8, elems = [Number (Num 0), Number (Num 255)]\<rparr>]
   \<and> elems ([\<lparr>kind = Uint8, elems = [Number (Num 0), Number (Num 255)]\<rparr>] ! 0)
   = [Number (Num 0), Number (Num 255)]
   \<and> NdRaster_constructor (\<lambda>x. Num x)
     [\<lparr>kind = Uint8, elems = [Number (Num 0), Number (Num 0)]\<rparr>]
     \<lparr>opt_dtype = Some Uint8, opt_copy = True, opt_shape = None,
      opt_data = Some (TypedArray 0)\<rparr>
   = Inr (\<lparr>r_data = 1, r_dtype = Some Uint8, r_shape = [2], r_strides = [1],
            r_typeBound = Some \<lparr>min_bound = Num 0, max_bound = Num 255\<rparr>\<rparr>,
          [\<lparr>kind = Uint8, elems = [Number (Num 0), Number (Num 0)]\<rparr>,
           \<lparr>kind = Uint8, elems = [Number (Num 0), Number (Num 0)]\<rparr>])
   \<and> NdRaster_set (\<lambda>x. Num x)
     [\<lparr>kind = Uint8, elems = [Number (Num 0), Number (Num 0)]\<rparr>,
      \<lparr>kind = Uint8, elems = [Number (Num 0), Number (Num 0)]\<rparr>]
     \<lparr>r_data = 1, r_dtype = Some Uint8, r_shape = [2], r_strides = [1],
      r_typeBound = Some \<lparr>min_bound = Num 0, max_bound = Num 255\<rparr>\<rparr>
     [1] (Number (Num 300))
   = Inr [\<lparr>kind = Uint8, elems = [Number (Num 0), Number (Num 0)]\<rparr>,
          \<lparr>kind = Uint8, elems = [Number (Num 0), Number (Num 255)]\<rparr>]
   \<and> [\<lparr>kind = Uint8, elems = [Number (Num 0), Number (Num 0)]\<rparr>,
       \<lparr>kind = Uint8, elems = [Number (Num 0), Number (Num 255)]\<rparr>] ! 0
   = [\<lparr>kind = Uint8, elems = [Number (Num 0), Number (Num 0)]\<rparr>] ! 0"
proof -
  let ?f = "\<lambda>x. Num x"
  let ?h = "[\<lparr>kind = Uint8, elems = [Number (Num 0), Number (Num 0)]\<rparr>]"
  let ?o1 = "\<lparr>opt_dtype = None, opt_copy = False, opt_shape = None,
              opt_data = Some (TypedArray 0)\<rparr>"
  let ?r1 = "\<lparr>r_data = 0, r_dtype = Some Uint8, r_shape = [2], r_strides = [1],
              r_typeBound = Some \<lparr>min_bound = Num 0, max_bound = Num 255\<rparr>\<rparr>"
  let ?h2 = "[\<lparr>kind = Uint8, elems = [Number (Num 0), Number (Num 255)]\<rparr>]"
  let ?o2 = "\<lparr>opt_dtype = Some Uint8, opt_copy = True, opt_shape = None,
              opt_data = Some (TypedArray 0)\<rparr>"
  let ?r2 = "\<lparr>r_data = 1, r_dtype = Some Uint8, r_shape = [2], r_strides = [1],
              r_typeBound = Some \<lparr>min_bound = Num 0, max_bound = Num 255\<rparr>\<rparr>"
  let ?h3 = "[\<lparr>kind = Uint8, elems = [Number (Num 0), Number (Num 0)]\<rparr>,
             \<lparr>kind = Uint8, elems = [Number (Num 0), Number (Num 0)]\<rparr>]"
  let ?h4 = "[\<lparr>kind = Uint8, elems = [Number (Num 0), Number (Num 0)]\<rparr>,
             \<lparr>kind = Uint8, elems = [Number (Num 0), Number (Num 255)]\<rparr>]"
  have c1: "NdRaster_constructor ?f ?h ?o1 = Inr (?r1, ?h)" by code_simp
  have s1: "NdRaster_set ?f ?h ?r1 [1] (Number (Num 300)) = Inr ?h2" by code_simp
  have c2: "NdRaster_constructor ?f ?h ?o2 = Inr (?r2, ?h3)" by code_simp
  have s2: "NdRaster_set ?f ?h3 ?r2 [1] (Number (Num 300)) = Inr ?h4" by code_simp
  have e: "number_to_element ?f Uint8 (saturate (Num 300) (DTYPE_TO_BOUND Uint8)) = Num 255"
    by code_simp
  have a1: "elems (?h2 ! 0) = [Number (Num 0), Number (Num 255)]"
    using C5_aliasing [of ?o1 0 ?h ?f ?r1 ?h "[1]" "Num 300" ?h2, THEN conjunct1] c1 s1 e
    by simp
  have a2: "?h4 ! 0 = ?h ! 0"
    using C5_aliasing [of ?o2 0 ?h ?f ?r2 ?h3 "[1]" "Num 300" ?h4, THEN conjunct2] c2 s2
    by simp
  from c1 s1 a1 c2 s2 a2 show ?thesis by blast
qed


text \<open>
  Claim C10, on uint16. The registry gives uint16 the bounds \<open>[-32768, 32767]\<close>, so on
  the uint16 Raster that the constructor builds over a two-element Uint16Array,
  \<^verbatim>\<open>set([1], 40000.5)\<close> clamps to \<open>32767\<close> and \<^verbatim>\<open>get([1])\<close> returns \<open>32767\<close>, not \<open>40000\<close>, and
  \<^verbatim>\<open>set([1], -1.5)\<close> passes the clamp and the array wraps it to \<open>65535\<close>; the copy of a
  float64 Raster holding \<open>40000.5\<close>, \<open>-1.5\<close> and \<open>2.5\<close> into uint16 holds \<open>32767\<close>, \<open>65535\<close>
  and \<open>2\<close>. On uint8, whose bounds are \<open>[0, 255]\<close>, \<^verbatim>\<open>set([1], 200.5)\<close> stores \<open>200\<close>.
\<close>

theorem C10_uint16_store_not_truncation:
  "NdRaster_constructor fround
     [\<lparr>kind = Uint16, elems = [Number (Num 0), Number (Num 0)]\<rparr>]
     \<lparr>opt_dtype = None, opt_copy = False, opt_shape = None, opt_data = Some (TypedArray 0)\<rparr>
   = Inr (\<lparr>r_data = 0, r_dtype = Some Uint16, r_shape = [2], r_strides = [1],
            r_typeBound = Some \<lparr>min_bound = Num (- 32768), max_bound = Num 32767\<rparr>\<rparr>,
          [\<lparr>kind = Uint16, elems = [Number (Num 0), Number (Num 0)]\<rparr>])
   \<and> NdRaster_set fround
     [\<lparr>kind = Uint16, elems = [Number (Num 0), Number (Num 0)]\<rparr>]
     \<lparr>r_data = 0, r_dtype = Some Uint16, r_shape = [2], r_strides = [1],
      r_typeBound = Some \<lparr>min_bound = Num (- 32768), max_bound = Num 32767\<rparr>\<rparr>
     [1] (Number (Num (80001 / 2)))
   = Inr [\<lparr>kind = Uint16, elems = [Number (Num 0), Number (Num 32767)]\<rparr>]
   \<and> NdRaster_get
     [\<lparr>kind = Uint16, elems = [Number (Num 0), Number (Num 32767)]\<rparr>]
     \<lparr>r_data = 0, r_dtype = Some Uint16, r_shape = [2], r_strides = [1],
      r_typeBound = Some \<lparr>min_bound = Num (- 32768), max_bound = Num 32767\<rparr>\<rparr>
     [1]
   = Inr (Number (Num 32767))
   \<and> js_truncate (80001 / 2) = 40000
   \<and> NdRaster_set fround
     [\<lparr>kind = Uint16, elems = [Number (Num 0), Number (Num 0)]\<rparr>]
     \<lparr>r_data = 0, r_dtype = Some Uint16, r_shape = [2], r_strides = [1],
      r_typeBound = Some \<lparr>min_bound = Num (- 32768), max_bound = Num 32767\<rparr>\<rparr>
     [1] (Number (Num (- 3 / 2)))
   = Inr [\<lparr>kind = Uint16, elems = [Number (Num 0), Number (Num 65535)]\<rparr>]
   \<and> js_truncate (- 3 / 2) = - 1
   \<and> NdRaster_copy fround
     [\<lparr>kind = Float64,
       elems = [Number (Num (80001 / 2)), Number (Num (- 3 / 2)), Number (Num (5 / 2))]\<rparr>]
     \<lparr>r_data = 0, r_dtype = Some Float64, r_shape = [3], r_strides = [1],
      r_typeBound = Some \<lparr>min_bound = NegInfinity, max_bound = PosInfinity\<rparr>\<rparr>
     (Some Uint16)
   = Inr (\<lparr>r_data = 1, r_dtype = Some Uint16, r_shape = [3], r_strides = [1],
            r_typeBound = Some \<lparr>min_bound = Num (- 32768), max_bound = Num 32767\<rparr>\<rparr>,
          [\<lparr>kind = Float64,
            elems = [Number (Num (80001 / 2)), Number (Num (- 3 / 2)),
                     Number (Num (5 / 2))]\<rparr>,
           \<lparr>kind = Uint16,
            elems = [Number (Num 32767), Number (Num 65535), Number (Num 2)]\<rparr>])
   \<and> NdRaster_set fround
     [\<lparr>kind = Uint8, elems = [Number (Num 0), Number (Num 0)]\<rparr>]
     \<lparr>r_data = 0, r_dtype = Some Uint8, r_shape = [2], r_strides = [1],
      r_typeBound = Some \<lparr>min_bound = Num 0, max_bound = Num 255\<rparr>\<rparr>
     [1] (Number (Num (401 / 2)))
   = Inr [\<lparr>kind = Uint8, elems = [Number (Num 0), Number (Num 200)]\<rparr>]"
  by code_simp

end
